theory Spec2Isabelle
  imports Complex_Main
begin

section \<open>Multiband equalizer: the data\<close>

text \<open>
  The repository is one Python file, \<^verbatim>\<open>SignalProcessingMultiBandEQ.py\<close>: a function
  \<^verbatim>\<open>normalize_waveform\<close> and a class with the three strategies \<^verbatim>\<open>process_rfft\<close>,
  \<^verbatim>\<open>process_hann\<close> and \<^verbatim>\<open>process_subcomp\<close>. Floating-point numbers are modelled as
  real numbers: rounding and overflow are not part of the model. The one place where the
  source divides by a float that can be zero (the Gaussian profile of \<^verbatim>\<open>process_hann\<close>) is
  written out with what IEEE arithmetic gives there, and a buffer that then holds NaN is
  a value of its own (\<open>NaNs\<close>).

  A Python exception is the left summand of a sum type. The messages of the exceptions
  the source raises itself are kept; an exception raised inside a torch call is
  \<open>RuntimeError\<close>, without its message.
\<close>

datatype error = ValueError string | TypeError string | RuntimeError

text \<open>
  A contiguous torch tensor: its shape and its elements in row-major order. A tensor
  that torch can build satisfies \<open>wf_tensor\<close>.
\<close>

record 'a tensor =
  shape :: "nat list"
  elems :: "'a list"

definition wf_tensor :: "'a tensor \<Rightarrow> bool" where
  "wf_tensor t \<longleftrightarrow> length (elems t) = prod_list (shape t)"

text \<open>
  A waveform buffer that a strategy hands back: real samples, or a buffer of the given
  shape that holds NaN (its other values are not followed).
\<close>

datatype buffer = Samples "real tensor" | NaNs "nat list"

fun buffer_shape :: "buffer \<Rightarrow> nat list" where
  "buffer_shape (Samples t) = shape t"
| "buffer_shape (NaNs s) = s"

text \<open>
  The value stored under \<^verbatim>\<open>'waveform'\<close>: a float tensor, or some object that is not a
  \<^verbatim>\<open>torch.Tensor\<close>. The dictionary \<^verbatim>\<open>audio_input\<close> is read with \<^verbatim>\<open>.get\<close> only, which gives
  \<^verbatim>\<open>None\<close> for an absent key as for a stored \<^verbatim>\<open>None\<close>: both are \<open>None\<close> here. The same
  record type, at other field types, is the dictionary a strategy returns. The fields
  \<open>audio_waveform\<close> and \<open>audio_sample_rate\<close> are the keys \<^verbatim>\<open>'waveform'\<close> and \<^verbatim>\<open>'sample_rate'\<close>.
\<close>

datatype pyobj = Tensor "real tensor" | NotATensor

record ('w, 's) audio =
  audio_waveform :: 'w
  audio_sample_rate :: 's

type_synonym audio_input = "(pyobj option, real option) audio"
type_synonym equalized_audio = "(buffer, real) audio"

text \<open>The seven keyword arguments, in decibels.\<close>

record gains =
  sub_bass_gain_db :: real
  bass_gain_db :: real
  low_mid_gain_db :: real
  mid_gain_db :: real
  upper_mid_gain_db :: real
  presence_gain_db :: real
  brilliance_gain_db :: real

text \<open>
  The keys of the dictionaries \<^verbatim>\<open>bands\<close>, \<^verbatim>\<open>gains_db\<close> and \<^verbatim>\<open>gains_linear\<close> are the same
  seven string literals in every strategy, so a lookup never misses; they are a datatype.
\<close>

datatype band = Sub_bass | Bass | Low_mid | Mid | Upper_mid | Presence | Brilliance

section \<open>The torch operations the strategies call\<close>

text \<open>
  The torch functions are library code, not code of the repository. Each one is written
  out as torch computes it on the arguments the strategies pass, with the cases in which
  it raises. The first two definitions are the index arithmetic they share.
\<close>

definition imap :: "(nat \<Rightarrow> 'a \<Rightarrow> 'b) \<Rightarrow> 'a list \<Rightarrow> 'b list" where
  "imap f xs = map (\<lambda>i. f i (xs ! i)) [0..<length xs]"

text \<open>The rows of a tensor along its last dimension, of size \<open>n\<close>.\<close>

definition rows :: "nat \<Rightarrow> 'a list \<Rightarrow> 'a list list" where
  "rows n xs = map (\<lambda>r. take n (drop (r * n) xs)) [0..<length xs div n]"

text \<open>\<^verbatim>\<open>torch.max(torch.abs(t))\<close>: the reduction of an empty tensor raises.\<close>

definition torch_max_abs :: "real tensor \<Rightarrow> error + real" where
  "torch_max_abs t =
     (if elems t = [] then Inl RuntimeError
      else Inr (Max (set (map abs (elems t)))))"

text \<open>\<^verbatim>\<open>torch.linspace(start, end, steps)\<close>.\<close>

definition linspace :: "real \<Rightarrow> real \<Rightarrow> nat \<Rightarrow> real list" where
  "linspace start end steps =
     (if steps = 1 then [start]
      else map (\<lambda>i. start + real i * (end - start) / real (steps - 1)) [0..<steps])"

definition ones_like :: "'a tensor \<Rightarrow> complex tensor" where
  "ones_like t = \<lparr>shape = shape t, elems = map (\<lambda>_. 1) (elems t)\<rparr>"

text \<open>The elementwise product of two tensors of one shape.\<close>

definition tensor_mul :: "complex tensor \<Rightarrow> complex tensor \<Rightarrow> complex tensor" where
  "tensor_mul a b = \<lparr>shape = shape a, elems = map2 (*) (elems a) (elems b)\<rparr>"

text \<open>
  The one-sided FFT of one row (the bins \<open>0\<close> to \<open>n div 2\<close> of the discrete Fourier
  transform), and its inverse at output length \<open>n\<close> (the
  complex-to-real transform: the imaginary parts of the first bin and, for even \<open>n\<close>,
  of the last bin are not read; bins beyond the input are zero).
\<close>

definition dft_bin :: "real list \<Rightarrow> nat \<Rightarrow> complex" where
  "dft_bin x k =
     (\<Sum>j<length x. complex_of_real (x ! j) * cis (- (2 * pi * real j * real k / real (length x))))"

definition rfft_row :: "real list \<Rightarrow> complex list" where
  "rfft_row x = map (dft_bin x) [0..<length x div 2 + 1]"

definition bin :: "complex list \<Rightarrow> nat \<Rightarrow> complex" where
  "bin X k = (if k < length X then X ! k else 0)"

definition irfft_row :: "nat \<Rightarrow> complex list \<Rightarrow> real list" where
  "irfft_row n X =
     map (\<lambda>j. (Re (bin X 0)
               + (\<Sum>k = 1..<(n + 1) div 2.
                    2 * Re (bin X k * cis (2 * pi * real j * real k / real n)))
               + (if even n then Re (bin X (n div 2)) * (- 1) ^ j else 0)) / real n)
       [0..<n]"

text \<open>
  \<^verbatim>\<open>torch.fft.rfft(t, dim=-1)\<close> and \<^verbatim>\<open>torch.fft.irfft(t, n=n, dim=-1)\<close>; both raise on a
  transform of length zero.
\<close>

definition fft_rfft :: "real tensor \<Rightarrow> error + complex tensor" where
  "fft_rfft t =
     (let n = last (shape t) in
      if shape t = [] \<or> n = 0 then Inl RuntimeError
      else Inr \<lparr>shape = butlast (shape t) @ [n div 2 + 1],
                elems = concat (map rfft_row (rows n (elems t)))\<rparr>)"

definition fft_irfft :: "complex tensor \<Rightarrow> nat \<Rightarrow> error + real tensor" where
  "fft_irfft t n =
     (let m = last (shape t) in
      if shape t = [] \<or> m = 0 \<or> n = 0 then Inl RuntimeError
      else Inr \<lparr>shape = butlast (shape t) @ [n],
                elems = concat (map (irfft_row n) (rows m (elems t)))\<rparr>)"

section \<open>The normalizer and the input checks\<close>

text \<open>
  \<^verbatim>\<open>normalize_waveform\<close> (lines 4-17). On a buffer that holds NaN, \<^verbatim>\<open>torch.max\<close> is NaN
  and the comparison \<^verbatim>\<open>max_val > 1.0\<close> is false: the buffer comes back as it is.
\<close>

fun normalize_waveform :: "buffer \<Rightarrow> error + buffer" where
  "normalize_waveform (Samples waveform) =
     (case torch_max_abs waveform of
        Inl e \<Rightarrow> Inl e
      | Inr max_val \<Rightarrow>
          if max_val > 1 then Inr (Samples (waveform\<lparr>elems := map (\<lambda>x. x / max_val) (elems waveform)\<rparr>))
          else Inr (Samples waveform))"
| "normalize_waveform (NaNs s) = Inr (NaNs s)"

text \<open>Python's \<^verbatim>\<open>str\<close> of a natural number, for the f-string of the channel error.\<close>

fun str_nat :: "nat \<Rightarrow> string" where
  "str_nat n =
     (if n < 10 then [''0123456789'' ! n]
      else str_nat (n div 10) @ [''0123456789'' ! (n mod 10)])"

text \<open>
  The checks every strategy starts with (lines 89-104, again at 186-201 and 299-314):
  they give the waveform, the sample rate and the three sizes unpacked from the shape.
\<close>

definition check_input :: "audio_input \<Rightarrow> error + (real tensor \<times> real \<times> nat \<times> nat \<times> nat)" where
  "check_input audio_input =
     (case (audio_waveform audio_input, audio_sample_rate audio_input) of
        (Some obj, Some sr) \<Rightarrow>
          (case obj of
             NotATensor \<Rightarrow> Inl (TypeError ''Waveform must be a torch.Tensor.'')
           | Tensor w \<Rightarrow>
               if length (shape w) \<noteq> 3
               then Inl (ValueError ''Waveform must be a 3D tensor with shape (batch, channels, samples).'')
               else
                 let batch_size = shape w ! 0; channels = shape w ! 1; num_samples = shape w ! 2 in
                 if channels \<notin> {1, 2}
                 then Inl (ValueError (''Unsupported number of channels: '' @ str_nat channels
                                        @ ''. Only mono and stereo are supported.''))
                 else Inr (w, sr, batch_size, channels, num_samples))
      | _ \<Rightarrow> Inl (ValueError ''Input audio must contain 'waveform' and 'sample_rate'.''))"

section \<open>The direct-FFT strategy\<close>

text \<open>The dictionary \<^verbatim>\<open>bands\<close> of \<^verbatim>\<open>process_rfft\<close> (lines 122-130), in insertion order.\<close>

definition rfft_bands :: "(band \<times> real \<times> real) list" where
  "rfft_bands =
     [(Sub_bass, 20, 60), (Bass, 60, 250), (Low_mid, 250, 500), (Mid, 500, 2000),
      (Upper_mid, 2000, 4000), (Presence, 4000, 6000), (Brilliance, 6000, 20000)]"

text \<open>
  Lines 107-113 and the \<^verbatim>\<open>if\<close>/\<^verbatim>\<open>elif\<close> chain of lines 137-152: the linear gain of a band.
  The final \<^verbatim>\<open>else\<close> of the chain is never taken.
\<close>

fun rfft_gain :: "gains \<Rightarrow> band \<Rightarrow> real" where
  "rfft_gain g Sub_bass = 10 powr (sub_bass_gain_db g / 20)"
| "rfft_gain g Bass = 10 powr (bass_gain_db g / 20)"
| "rfft_gain g Low_mid = 10 powr (low_mid_gain_db g / 20)"
| "rfft_gain g Mid = 10 powr (mid_gain_db g / 20)"
| "rfft_gain g Upper_mid = 10 powr (upper_mid_gain_db g / 20)"
| "rfft_gain g Presence = 10 powr (presence_gain_db g / 20)"
| "rfft_gain g Brilliance = 10 powr (brilliance_gain_db g / 20)"

text \<open>Line 155: \<^verbatim>\<open>mask = (freq_bins >= f_start) & (freq_bins < f_end)\<close>.\<close>

definition band_mask :: "real list \<Rightarrow> real \<Rightarrow> real \<Rightarrow> bool list" where
  "band_mask freq_bins f_start f_end = map (\<lambda>f. f_start \<le> f \<and> f < f_end) freq_bins"

text \<open>
  Line 156: \<^verbatim>\<open>gain_factors[:, :, mask] *= gain\<close>. The mask has the length of the last
  dimension, so the element at flat index \<open>i\<close> is at frequency bin \<open>i mod length bmask\<close>.
\<close>

definition masked_mul :: "bool list \<Rightarrow> real \<Rightarrow> complex tensor \<Rightarrow> complex tensor" where
  "masked_mul bmask gain gain_factors =
     gain_factors\<lparr>elems :=
       imap (\<lambda>i z. if bmask ! (i mod length bmask) then z * complex_of_real gain else z)
         (elems gain_factors)\<rparr>"

text \<open>Lines 133-156: the gain-factor field.\<close>

definition rfft_gain_factors :: "gains \<Rightarrow> real list \<Rightarrow> complex tensor \<Rightarrow> complex tensor" where
  "rfft_gain_factors g freq_bins waveform_fft =
     fold (\<lambda>(band, f_start, f_end) gain_factors.
             masked_mul (band_mask freq_bins f_start f_end) (rfft_gain g band) gain_factors)
       rfft_bands (ones_like waveform_fft)"

definition process_rfft :: "audio_input \<Rightarrow> gains \<Rightarrow> error + equalized_audio" where
  "process_rfft audio_input g =
     (case check_input audio_input of
        Inl e \<Rightarrow> Inl e
      | Inr (waveform, sample_rate, batch_size, channels, num_samples) \<Rightarrow>
          (case fft_rfft waveform of
             Inl e \<Rightarrow> Inl e
           | Inr waveform_fft \<Rightarrow>
               let freq_bins = linspace 0 (sample_rate / 2) (last (shape waveform_fft));
                   gain_factors = rfft_gain_factors g freq_bins waveform_fft;
                   waveform_fft_eq = tensor_mul waveform_fft gain_factors
               in (case fft_irfft waveform_fft_eq num_samples of
                     Inl e \<Rightarrow> Inl e
                   | Inr waveform_eq \<Rightarrow>
                       (case normalize_waveform (Samples waveform_eq) of
                          Inl e \<Rightarrow> Inl e
                        | Inr waveform_eq' \<Rightarrow>
                            Inr \<lparr>audio_waveform = waveform_eq', audio_sample_rate = sample_rate\<rparr>))))"

section \<open>The short-time Fourier transform\<close>

text \<open>\<^verbatim>\<open>torch.hann_window(n, periodic=True)\<close>.\<close>

definition hann_window :: "nat \<Rightarrow> real list" where
  "hann_window n = map (\<lambda>i. (1 - cos (2 * pi * real i / real n)) / 2) [0..<n]"

text \<open>
  \<^verbatim>\<open>t.view(-1, n)\<close>: the rows of length \<open>n\<close>; the sizes must divide, and \<open>-1\<close> cannot be
  inferred next to a zero.
\<close>

definition view_rows :: "real tensor \<Rightarrow> nat \<Rightarrow> error + real tensor" where
  "view_rows t n =
     (if n = 0 \<or> length (elems t) mod n \<noteq> 0 then Inl RuntimeError
      else Inr \<lparr>shape = [length (elems t) div n, n], elems = elems t\<rparr>)"

text \<open>Reflective padding by \<open>p\<close> samples on both sides (the edge sample is not repeated).\<close>

definition reflect_pad :: "nat \<Rightarrow> 'a list \<Rightarrow> 'a list" where
  "reflect_pad p x = rev (take p (tl x)) @ x @ take p (tl (rev x))"

text \<open>
  The transform of one row, as \<^verbatim>\<open>torch.stft\<close> computes it with \<^verbatim>\<open>center=True\<close>,
  \<^verbatim>\<open>pad_mode='reflect'\<close>, one-sided and not normalized: entry \<open>(f, t)\<close> at \<open>f * n_frames + t\<close>.
\<close>

definition stft_frames :: "nat \<Rightarrow> nat \<Rightarrow> nat \<Rightarrow> nat" where
  "stft_frames n_fft hop_length len = 1 + (len + 2 * (n_fft div 2) - n_fft) div hop_length"

definition stft_row :: "nat \<Rightarrow> nat \<Rightarrow> real list \<Rightarrow> real list \<Rightarrow> complex list" where
  "stft_row n_fft hop_length window x =
     (let padded = reflect_pad (n_fft div 2) x in
      concat (map (\<lambda>f. map (\<lambda>t. \<Sum>n<n_fft.
                           complex_of_real (window ! n * padded ! (t * hop_length + n))
                           * cis (- (2 * pi * real n * real f / real n_fft)))
                      [0..<stft_frames n_fft hop_length (length x)])
                [0..<n_fft div 2 + 1]))"

text \<open>
  \<^verbatim>\<open>torch.stft\<close> on a tensor of shape \<open>[rows, len]\<close>. Reflective padding by \<open>n_fft div 2\<close>
  raises unless the row is longer than the padding.
\<close>

definition torch_stft :: "real tensor \<Rightarrow> nat \<Rightarrow> nat \<Rightarrow> real list \<Rightarrow> error + complex tensor" where
  "torch_stft input n_fft hop_length window =
     (let len = shape input ! 1 in
      if length (shape input) \<noteq> 2 \<or> n_fft = 0 \<or> hop_length = 0 \<or> length window \<noteq> n_fft
         \<or> len \<le> n_fft div 2
      then Inl RuntimeError
      else Inr \<lparr>shape = [shape input ! 0, n_fft div 2 + 1, stft_frames n_fft hop_length len],
                elems = concat (map (stft_row n_fft hop_length window) (rows len (elems input)))\<rparr>)"

text \<open>
  The inverse transform overlap-adds the windowed inverse FFT of every frame and divides
  by the overlap-added squared window, after cutting \<open>n_fft div 2\<close> samples at the front
  and keeping \<open>len\<close> samples. \<^verbatim>\<open>torch.istft\<close> raises on an empty input and when the
  squared-window sum falls below \<open>1e-11\<close> somewhere in the part it keeps.
\<close>

definition window_envelope :: "nat \<Rightarrow> nat \<Rightarrow> real list \<Rightarrow> nat \<Rightarrow> nat \<Rightarrow> real" where
  "window_envelope n_fft hop_length window n_frames q =
     (\<Sum>t<n_frames. if t * hop_length \<le> q \<and> q < t * hop_length + n_fft
                     then (window ! (q - t * hop_length))\<^sup>2 else 0)"

definition istft_frame :: "nat \<Rightarrow> real list \<Rightarrow> nat \<Rightarrow> complex list \<Rightarrow> nat \<Rightarrow> real list" where
  "istft_frame n_fft window n_frames X t =
     map2 (*) (irfft_row n_fft (map (\<lambda>f. X ! (f * n_frames + t)) [0..<n_fft div 2 + 1])) window"

definition overlap_add :: "nat \<Rightarrow> nat \<Rightarrow> real list \<Rightarrow> nat \<Rightarrow> complex list \<Rightarrow> nat \<Rightarrow> real" where
  "overlap_add n_fft hop_length window n_frames X q =
     (\<Sum>t<n_frames. if t * hop_length \<le> q \<and> q < t * hop_length + n_fft
                     then istft_frame n_fft window n_frames X t ! (q - t * hop_length) else 0)"

definition istft_row :: "nat \<Rightarrow> nat \<Rightarrow> real list \<Rightarrow> nat \<Rightarrow> nat \<Rightarrow> complex list \<Rightarrow> real list" where
  "istft_row n_fft hop_length window n_frames len X =
     map (\<lambda>p. let q = p + n_fft div 2 in
               if q < n_fft + hop_length * (n_frames - 1)
               then overlap_add n_fft hop_length window n_frames X q
                    / window_envelope n_fft hop_length window n_frames q
               else 0)
       [0..<len]"

text \<open>
  The spectrum handed to \<^verbatim>\<open>torch.istft\<close> may hold NaN (\<open>None\<close>); the buffer that comes
  back then holds NaN too.
\<close>

definition torch_istft ::
    "complex option tensor \<Rightarrow> nat \<Rightarrow> nat \<Rightarrow> real list \<Rightarrow> nat \<Rightarrow> error + buffer" where
  "torch_istft input n_fft hop_length window len =
     (let n_frames = shape input ! 2;
          start = n_fft div 2;
          expected_len = n_fft + hop_length * (n_frames - 1) in
      if length (shape input) \<noteq> 3 \<or> elems input = [] \<or> shape input ! 1 \<noteq> n_fft div 2 + 1
         \<or> n_fft = 0 \<or> hop_length = 0 \<or> length window \<noteq> n_fft \<or> len = 0
         \<or> list_ex (\<lambda>q. \<bar>window_envelope n_fft hop_length window n_frames q\<bar> < 1 / 10 ^ 11)
              [start..<min (start + len) expected_len]
      then Inl RuntimeError
      else if None \<in> set (elems input) then Inr (NaNs [shape input ! 0, len])
      else Inr (Samples \<lparr>shape = [shape input ! 0, len],
                  elems = concat (map (istft_row n_fft hop_length window n_frames len)
                                    (rows ((n_fft div 2 + 1) * n_frames) (map the (elems input))))\<rparr>))"

text \<open>\<^verbatim>\<open>t.view(batch_size, channels, num_samples)\<close>: the element counts must agree.\<close>

fun buffer_view :: "buffer \<Rightarrow> nat list \<Rightarrow> error + buffer" where
  "buffer_view (Samples t) s =
     (if prod_list s \<noteq> prod_list (shape t) then Inl RuntimeError else Inr (Samples (t\<lparr>shape := s\<rparr>)))"
| "buffer_view (NaNs s') s =
     (if prod_list s \<noteq> prod_list s' then Inl RuntimeError else Inr (NaNs s))"

text \<open>
  The frequency bin of the element at flat index \<open>i\<close> of a tensor of shape
  \<open>[rows, freq_bins, time_frames]\<close>.
\<close>

definition freq_index :: "nat list \<Rightarrow> nat \<Rightarrow> nat" where
  "freq_index s i = (i div (s ! 2)) mod (s ! 1)"

section \<open>The windowed smooth strategy\<close>

text \<open>Lines 204-215: the gains, clamped from above, and their linear values.\<close>

definition max_gain_db_hann :: real where
  "max_gain_db_hann = 12"

fun hann_gains_db :: "gains \<Rightarrow> band \<Rightarrow> real" where
  "hann_gains_db g Sub_bass = min (sub_bass_gain_db g) max_gain_db_hann"
| "hann_gains_db g Bass = min (bass_gain_db g) max_gain_db_hann"
| "hann_gains_db g Low_mid = min (low_mid_gain_db g) max_gain_db_hann"
| "hann_gains_db g Mid = min (mid_gain_db g) max_gain_db_hann"
| "hann_gains_db g Upper_mid = min (upper_mid_gain_db g) max_gain_db_hann"
| "hann_gains_db g Presence = min (presence_gain_db g) max_gain_db_hann"
| "hann_gains_db g Brilliance = min (brilliance_gain_db g) max_gain_db_hann"

definition hann_gains_linear :: "gains \<Rightarrow> band \<Rightarrow> real" where
  "hann_gains_linear g band = 10 powr (hann_gains_db g band / 20)"

text \<open>
  The dictionary \<^verbatim>\<open>bands\<close> of the two windowed strategies (lines 240-248 and 355-363).
\<close>

definition stft_bands :: "real \<Rightarrow> (band \<times> real \<times> real) list" where
  "stft_bands sample_rate =
     [(Sub_bass, 20, 60), (Bass, 60, 250), (Low_mid, 250, 500), (Mid, 500, 2000),
      (Upper_mid, 2000, 4000), (Presence, 4000, 6000), (Brilliance, 6000, sample_rate / 2)]"

text \<open>
  Line 257, \<^verbatim>\<open>torch.exp(-0.5 * ((freq_bins - center_freq) / (bandwidth / 2)) ** 2)\<close>, at one
  bin with \<open>x = f - center_freq\<close> and \<open>d = bandwidth / 2\<close>. Dividing a tensor by the float
  zero does not raise: \<open>x / 0\<close> is an infinity for \<open>x \<noteq> 0\<close>, whose square is \<open>+inf\<close>, and
  \<open>exp(-inf) = 0\<close>; \<open>0 / 0\<close> is NaN and stays NaN (\<open>None\<close>).
\<close>

definition gaussian :: "real \<Rightarrow> real \<Rightarrow> real option" where
  "gaussian x d =
     (if d \<noteq> 0 then Some (exp (- 0.5 * (x / d)\<^sup>2))
      else if x = 0 then None
      else Some 0)"

text \<open>Lines 255-258: the divisor of the Gaussian and the gain profile of one band.\<close>

definition hann_divisor :: "real \<Rightarrow> real \<Rightarrow> real" where
  "hann_divisor f_start f_end = (let bandwidth = (f_end - f_start) / 2 in bandwidth / 2)"

definition hann_gain_profile :: "real list \<Rightarrow> real \<Rightarrow> real \<Rightarrow> real \<Rightarrow> real option list" where
  "hann_gain_profile freq_bins gain f_start f_end =
     (let center_freq = (f_start + f_end) / 2 in
      map (\<lambda>f. map_option (\<lambda>p. 1 + (gain - 1) * p)
                 (gaussian (f - center_freq) (hann_divisor f_start f_end)))
        freq_bins)"

text \<open>
  Line 259: \<^verbatim>\<open>gain_factors *= gain_profile.unsqueeze(1)\<close>, the profile broadcast over rows
  and time frames; a NaN factor makes the product NaN.
\<close>

definition mul_profile_opt ::
    "real option list \<Rightarrow> complex option tensor \<Rightarrow> complex option tensor" where
  "mul_profile_opt gain_profile gain_factors =
     gain_factors\<lparr>elems :=
       imap (\<lambda>i z. case (z, gain_profile ! freq_index (shape gain_factors) i) of
                     (Some a, Some p) \<Rightarrow> Some (a * complex_of_real p)
                   | _ \<Rightarrow> None)
         (elems gain_factors)\<rparr>"

definition hann_gain_factors ::
    "gains \<Rightarrow> real \<Rightarrow> real list \<Rightarrow> complex tensor \<Rightarrow> complex option tensor" where
  "hann_gain_factors g sample_rate freq_bins waveform_stft =
     fold (\<lambda>(band, f_start, f_end) gain_factors.
             mul_profile_opt (hann_gain_profile freq_bins (hann_gains_linear g band) f_start f_end)
               gain_factors)
       (stft_bands sample_rate)
       \<lparr>shape = shape waveform_stft, elems = map (\<lambda>_. Some 1) (elems waveform_stft)\<rparr>"

text \<open>Line 262: \<^verbatim>\<open>waveform_stft_eq = waveform_stft * gain_factors\<close>.\<close>

definition hann_stft_eq :: "gains \<Rightarrow> real \<Rightarrow> complex tensor \<Rightarrow> complex option tensor" where
  "hann_stft_eq g sample_rate waveform_stft =
     (let freq_bins = linspace 0 (sample_rate / 2) (shape waveform_stft ! 1);
          gain_factors = hann_gain_factors g sample_rate freq_bins waveform_stft
      in \<lparr>shape = shape waveform_stft,
          elems = map2 (\<lambda>z gf. map_option (\<lambda>c. z * c) gf) (elems waveform_stft) (elems gain_factors)\<rparr>)"

definition process_hann :: "audio_input \<Rightarrow> gains \<Rightarrow> error + equalized_audio" where
  "process_hann audio_input g =
     (case check_input audio_input of
        Inl e \<Rightarrow> Inl e
      | Inr (waveform, sample_rate, batch_size, channels, num_samples) \<Rightarrow>
          let n_fft = 2048;
              hop_length = n_fft div 2;
              window = hann_window n_fft
          in (case view_rows waveform num_samples of
                Inl e \<Rightarrow> Inl e
              | Inr waveform_rows \<Rightarrow>
          (case torch_stft waveform_rows n_fft hop_length window of
             Inl e \<Rightarrow> Inl e
           | Inr waveform_stft \<Rightarrow>
          (case torch_istft (hann_stft_eq g sample_rate waveform_stft)
                  n_fft hop_length window num_samples of
             Inl e \<Rightarrow> Inl e
           | Inr waveform_eq \<Rightarrow>
          (case buffer_view waveform_eq [batch_size, channels, num_samples] of
             Inl e \<Rightarrow> Inl e
           | Inr waveform_eq' \<Rightarrow>
          (case normalize_waveform waveform_eq' of
             Inl e \<Rightarrow> Inl e
           | Inr waveform_eq'' \<Rightarrow>
               Inr \<lparr>audio_waveform = waveform_eq'', audio_sample_rate = sample_rate\<rparr>))))))"

section \<open>The windowed strategy with bass compression\<close>

text \<open>Lines 317-330: the gains, clamped on both sides, and their linear values.\<close>

definition max_gain_db :: real where
  "max_gain_db = 24"

definition min_gain_db :: real where
  "min_gain_db = - 24"

fun subcomp_gains_db :: "gains \<Rightarrow> band \<Rightarrow> real" where
  "subcomp_gains_db g Sub_bass = max (min (sub_bass_gain_db g) max_gain_db) min_gain_db"
| "subcomp_gains_db g Bass = max (min (bass_gain_db g) max_gain_db) min_gain_db"
| "subcomp_gains_db g Low_mid = max (min (low_mid_gain_db g) max_gain_db) min_gain_db"
| "subcomp_gains_db g Mid = max (min (mid_gain_db g) max_gain_db) min_gain_db"
| "subcomp_gains_db g Upper_mid = max (min (upper_mid_gain_db g) max_gain_db) min_gain_db"
| "subcomp_gains_db g Presence = max (min (presence_gain_db g) max_gain_db) min_gain_db"
| "subcomp_gains_db g Brilliance = max (min (brilliance_gain_db g) max_gain_db) min_gain_db"

definition subcomp_gains_linear :: "gains \<Rightarrow> band \<Rightarrow> real" where
  "subcomp_gains_linear g band = 10 powr (subcomp_gains_db g band / 20)"

text \<open>Lines 369-373: the divisor \<^verbatim>\<open>bandwidth / 2\<close> after the guard, and the gain profile.\<close>

definition subcomp_divisor :: "real \<Rightarrow> real \<Rightarrow> real" where
  "subcomp_divisor f_start f_end =
     (let bandwidth = f_end - f_start;
          bandwidth = (if bandwidth = 0 then f_end * 0.01 else bandwidth)
      in bandwidth / 2)"

definition subcomp_gain_profile :: "real list \<Rightarrow> real \<Rightarrow> real \<Rightarrow> real \<Rightarrow> real list" where
  "subcomp_gain_profile freq_bins gain f_start f_end =
     (let center_freq = (f_start + f_end) / 2 in
      map (\<lambda>f. 1 + (gain - 1) * exp (- 0.5 * ((f - center_freq) / subcomp_divisor f_start f_end)\<^sup>2))
        freq_bins)"

text \<open>
  Lines 374-375: \<^verbatim>\<open>gain_factors * gain_profile.unsqueeze(0).unsqueeze(2)\<close>, the profile
  broadcast over rows and time frames.
\<close>

definition mul_profile :: "real list \<Rightarrow> complex tensor \<Rightarrow> complex tensor" where
  "mul_profile gain_profile gain_factors =
     gain_factors\<lparr>elems :=
       imap (\<lambda>i z. z * complex_of_real (gain_profile ! freq_index (shape gain_factors) i))
         (elems gain_factors)\<rparr>"

definition subcomp_gain_factors ::
    "gains \<Rightarrow> real \<Rightarrow> real list \<Rightarrow> complex tensor \<Rightarrow> complex tensor" where
  "subcomp_gain_factors g sample_rate freq_bins waveform_stft =
     fold (\<lambda>(band, f_start, f_end) gain_factors.
             mul_profile (subcomp_gain_profile freq_bins (subcomp_gains_linear g band) f_start f_end)
               gain_factors)
       (stft_bands sample_rate) (ones_like waveform_stft)"

text \<open>Line 378: \<^verbatim>\<open>waveform_stft_eq = waveform_stft * gain_factors\<close>.\<close>

definition subcomp_stft_eq :: "gains \<Rightarrow> real \<Rightarrow> complex tensor \<Rightarrow> complex tensor" where
  "subcomp_stft_eq g sample_rate waveform_stft =
     (let freq_bins = linspace 0 (sample_rate / 2) (shape waveform_stft ! 1);
          gain_factors = subcomp_gain_factors g sample_rate freq_bins waveform_stft
      in tensor_mul waveform_stft gain_factors)"

text \<open>Lines 382-385: the parameters of the compressor.\<close>

definition threshold :: real where "threshold = - 20"
definition ratio :: real where "ratio = 4"
definition knee :: real where "knee = 5"
definition makeup_gain :: real where "makeup_gain = 5"

text \<open>
  Lines 392-394: the bass mask, one entry per frequency bin, from the lower edge of
  \<^verbatim>\<open>sub_bass\<close> to the upper edge of \<^verbatim>\<open>bass\<close>, both included.
\<close>

definition bass_mask :: "real list \<Rightarrow> real list" where
  "bass_mask freq_bins = map (\<lambda>f. if 20 \<le> f \<and> f \<le> 250 then 1 else 0) freq_bins"

text \<open>
  Lines 408-413 at one element: the two masked assignments into a tensor of zeros, the
  second overwriting the first.
\<close>

definition compression_amount :: "real \<Rightarrow> real" where
  "compression_amount over_threshold =
     (let c0 = 0;
          c1 = (if over_threshold > - knee / 2
                then (1 / ratio - 1) * (over_threshold + knee / 2)\<^sup>2 / (2 * knee) else c0);
          c2 = (if over_threshold > knee / 2 then (1 / ratio - 1) * over_threshold else c1)
      in c2)"

text \<open>
  Lines 404-415 at one element of magnitude \<open>m\<close> whose bin has the mask value \<open>bm\<close>.
\<close>

definition over_threshold_of :: "real \<Rightarrow> real \<Rightarrow> real" where
  "over_threshold_of m bm =
     (let bass_magnitude = m * bm;
          bass_magnitude_db = 20 * log 10 (bass_magnitude + 1 / 10 ^ 8)
      in bass_magnitude_db - threshold)"

definition gain_reduction_linear :: "real \<Rightarrow> real \<Rightarrow> real" where
  "gain_reduction_linear m bm = 10 powr (compression_amount (over_threshold_of m bm) / 20)"

text \<open>
  Lines 398-417: the magnitude of the equalized spectrum after the compression step,
  before the makeup gain.
\<close>

definition magnitude_compressed :: "real list \<Rightarrow> complex tensor \<Rightarrow> real tensor" where
  "magnitude_compressed freq_bins waveform_stft_eq =
     \<lparr>shape = shape waveform_stft_eq,
      elems = imap (\<lambda>i z. let bm = bass_mask freq_bins ! freq_index (shape waveform_stft_eq) i;
                              magnitude = cmod z
                          in magnitude * (1 + gain_reduction_linear magnitude bm * bm))
                (elems waveform_stft_eq)\<rparr>"

text \<open>\<^verbatim>\<open>torch.angle\<close> at one element: \<open>atan2 (Im z) (Re z)\<close>.\<close>

definition angle :: "complex \<Rightarrow> real" where
  "angle z =
     (if Re z > 0 then arctan (Im z / Re z)
      else if Re z < 0 then (if Im z \<ge> 0 then arctan (Im z / Re z) + pi
                             else arctan (Im z / Re z) - pi)
      else if Im z > 0 then pi / 2
      else if Im z < 0 then - pi / 2
      else 0)"

text \<open>
  Lines 420-423: the makeup gain on every element, and the spectrum rebuilt from the
  new magnitude and the phase of the equalized spectrum.
\<close>

definition subcomp_rebuild :: "real list \<Rightarrow> complex tensor \<Rightarrow> complex tensor" where
  "subcomp_rebuild freq_bins waveform_stft_eq =
     (let makeup_gain_linear = 10 powr (makeup_gain / 20) in
      \<lparr>shape = shape waveform_stft_eq,
       elems = map2 (\<lambda>mc z. complex_of_real (mc * makeup_gain_linear) * cis (angle z))
                 (elems (magnitude_compressed freq_bins waveform_stft_eq))
                 (elems waveform_stft_eq)\<rparr>)"

text \<open>
  Lines 349-423 together: the spectrum handed to the inverse transform. It holds no NaN.
\<close>

definition subcomp_stft_compressed :: "gains \<Rightarrow> real \<Rightarrow> complex tensor \<Rightarrow> complex option tensor" where
  "subcomp_stft_compressed g sample_rate waveform_stft =
     (let freq_bins = linspace 0 (sample_rate / 2) (shape waveform_stft ! 1);
          waveform_stft_eq = subcomp_stft_eq g sample_rate waveform_stft;
          waveform_stft_eq' = subcomp_rebuild freq_bins waveform_stft_eq
      in \<lparr>shape = shape waveform_stft_eq', elems = map Some (elems waveform_stft_eq')\<rparr>)"

definition process_subcomp :: "audio_input \<Rightarrow> gains \<Rightarrow> error + equalized_audio" where
  "process_subcomp audio_input g =
     (case check_input audio_input of
        Inl e \<Rightarrow> Inl e
      | Inr (waveform, sample_rate, batch_size, channels, num_samples) \<Rightarrow>
          let n_fft = 2048;
              hop_length = n_fft div 2;
              window = hann_window n_fft
          in (case view_rows waveform num_samples of
                Inl e \<Rightarrow> Inl e
              | Inr waveform_rows \<Rightarrow>
          (case torch_stft waveform_rows n_fft hop_length window of
             Inl e \<Rightarrow> Inl e
           | Inr waveform_stft \<Rightarrow>
          (case torch_istft (subcomp_stft_compressed g sample_rate waveform_stft)
                  n_fft hop_length window num_samples of
             Inl e \<Rightarrow> Inl e
           | Inr waveform_eq \<Rightarrow>
          (case buffer_view waveform_eq [batch_size, channels, num_samples] of
             Inl e \<Rightarrow> Inl e
           | Inr waveform_eq' \<Rightarrow>
          (case normalize_waveform waveform_eq' of
             Inl e \<Rightarrow> Inl e
           | Inr waveform_eq'' \<Rightarrow>
               Inr \<lparr>audio_waveform = waveform_eq'', audio_sample_rate = sample_rate\<rparr>))))))"

section \<open>Inputs used to state the properties\<close>

text \<open>The keyword argument of a band, and the default of all seven (\<open>0.0\<close>).\<close>

fun gain_db :: "gains \<Rightarrow> band \<Rightarrow> real" where
  "gain_db g Sub_bass = sub_bass_gain_db g"
| "gain_db g Bass = bass_gain_db g"
| "gain_db g Low_mid = low_mid_gain_db g"
| "gain_db g Mid = mid_gain_db g"
| "gain_db g Upper_mid = upper_mid_gain_db g"
| "gain_db g Presence = presence_gain_db g"
| "gain_db g Brilliance = brilliance_gain_db g"

definition default_gains :: gains where
  "default_gains = \<lparr>sub_bass_gain_db = 0, bass_gain_db = 0, low_mid_gain_db = 0, mid_gain_db = 0,
     upper_mid_gain_db = 0, presence_gain_db = 0, brilliance_gain_db = 0\<rparr>"

text \<open>
  A mono waveform of 2048 samples, all of them \<open>1\<close>: its rows as \<^verbatim>\<open>view(-1, num_samples)\<close>
  gives them, and its short-time Fourier transform (1025 bins, 3 frames).
\<close>

definition dc_rows :: "real tensor" where
  "dc_rows = \<lparr>shape = [1, 2048], elems = replicate 2048 1\<rparr>"

definition dc_stft :: "complex tensor" where
  "dc_stft = \<lparr>shape = [1, 1025, 3],
               elems = stft_row 2048 1024 (hann_window 2048) (replicate 2048 1)\<rparr>"

section \<open>Basic facts\<close>

lemma length_imap [simp]: "length (imap f xs) = length xs"
  by (simp add: imap_def)

lemma nth_imap [simp]: "i < length xs \<Longrightarrow> imap f xs ! i = f i (xs ! i)"
  by (simp add: imap_def)

lemma length_linspace [simp]: "length (linspace a b n) = n"
  by (simp add: linspace_def)

lemma freq_index_less: "0 < s ! 1 \<Longrightarrow> freq_index s i < s ! 1"
  by (simp add: freq_index_def)

section \<open>The input checks\<close>

lemma check_input_cases:
  "check_input a =
    (if audio_waveform a = None \<or> audio_sample_rate a = None
     then Inl (ValueError ''Input audio must contain 'waveform' and 'sample_rate'.'')
     else case the (audio_waveform a) of
       NotATensor \<Rightarrow> Inl (TypeError ''Waveform must be a torch.Tensor.'')
     | Tensor w \<Rightarrow>
         if length (shape w) \<noteq> 3
         then Inl (ValueError ''Waveform must be a 3D tensor with shape (batch, channels, samples).'')
         else if shape w ! 1 \<noteq> 1 \<and> shape w ! 1 \<noteq> 2
         then Inl (ValueError (''Unsupported number of channels: '' @ str_nat (shape w ! 1)
                                        @ ''. Only mono and stereo are supported.''))
         else Inr (w, the (audio_sample_rate a), shape w ! 0, shape w ! 1, shape w ! 2))"
  by (auto simp add: check_input_def Let_def split: option.splits pyobj.splits)

lemma process_rfft_check: "check_input a = Inl e \<Longrightarrow> process_rfft a g = Inl e"
  by (simp add: process_rfft_def)

lemma process_hann_check: "check_input a = Inl e \<Longrightarrow> process_hann a g = Inl e"
  by (simp add: process_hann_def)

lemma process_subcomp_check: "check_input a = Inl e \<Longrightarrow> process_subcomp a g = Inl e"
  by (simp add: process_subcomp_def)

text \<open>
  Claim C3. In each of the three strategies and for all gains: an input without waveform
  or without sample rate raises the \<^verbatim>\<open>ValueError\<close> for missing input; a waveform that is
  not a tensor raises \<^verbatim>\<open>TypeError\<close>; a tensor of a rank other than 3 raises the
  \<^verbatim>\<open>ValueError\<close> for the shape; a rank-3 tensor with a channel count outside \<open>{1, 2}\<close>
  raises the \<^verbatim>\<open>ValueError\<close> whose message holds that channel count in decimal. (The
  kinds the specification calls MissingInputError, ShapeError and
  UnsupportedChannelError are these three \<^verbatim>\<open>ValueError\<close>s of the source, told apart by
  their messages.) The result is the error alone, whatever the samples and the gains
  are, also where a transform of the same tensor would raise: the checks come first.
\<close>

theorem validation_errors:
  fixes a :: audio_input
  shows
  "(audio_waveform a = None \<or> audio_sample_rate a = None \<longrightarrow>
      (\<forall>strategy \<in> {process_rfft, process_hann, process_subcomp}. \<forall>g.
         strategy a g = Inl (ValueError ''Input audio must contain 'waveform' and 'sample_rate'.'')))
   \<and> (audio_waveform a = Some NotATensor \<and> audio_sample_rate a \<noteq> None \<longrightarrow>
      (\<forall>strategy \<in> {process_rfft, process_hann, process_subcomp}. \<forall>g.
         strategy a g = Inl (TypeError ''Waveform must be a torch.Tensor.'')))
   \<and> (audio_waveform a = Some (Tensor w) \<and> audio_sample_rate a \<noteq> None
        \<and> length (shape w) \<noteq> 3 \<longrightarrow>
      (\<forall>strategy \<in> {process_rfft, process_hann, process_subcomp}. \<forall>g.
         strategy a g
           = Inl (ValueError ''Waveform must be a 3D tensor with shape (batch, channels, samples).'')))
   \<and> (audio_waveform a = Some (Tensor w) \<and> audio_sample_rate a \<noteq> None
        \<and> length (shape w) = 3 \<and> shape w ! 1 \<notin> {1, 2} \<longrightarrow>
      (\<forall>strategy \<in> {process_rfft, process_hann, process_subcomp}. \<forall>g.
         strategy a g
           = Inl (ValueError (''Unsupported number of channels: '' @ str_nat (shape w ! 1)
                                @ ''. Only mono and stereo are supported.''))))"
proof -
  have *: "\<And>e. check_input a = Inl e \<Longrightarrow>
      (\<forall>strategy \<in> {process_rfft, process_hann, process_subcomp}. \<forall>g. strategy a g = Inl e)"
    by (simp add: process_rfft_check process_hann_check process_subcomp_check)
  show ?thesis
    by (intro conjI impI *) (auto simp add: check_input_cases)
qed

theorem validation_errors_witness:
  "process_rfft \<lparr>audio_waveform = None, audio_sample_rate = Some 44100\<rparr> default_gains
     = Inl (ValueError ''Input audio must contain 'waveform' and 'sample_rate'.'')
   \<and> process_hann \<lparr>audio_waveform = Some NotATensor, audio_sample_rate = Some 44100\<rparr> default_gains
     = Inl (TypeError ''Waveform must be a torch.Tensor.'')
   \<and> process_subcomp \<lparr>audio_waveform = Some (Tensor \<lparr>shape = [2, 4], elems = replicate 8 0\<rparr>),
         audio_sample_rate = Some 44100\<rparr> default_gains
     = Inl (ValueError ''Waveform must be a 3D tensor with shape (batch, channels, samples).'')
   \<and> process_rfft \<lparr>audio_waveform = Some (Tensor \<lparr>shape = [1, 3, 0], elems = []\<rparr>),
         audio_sample_rate = Some 44100\<rparr> default_gains
     = Inl (ValueError ''Unsupported number of channels: 3. Only mono and stereo are supported.'')"
  using validation_errors [of "\<lparr>audio_waveform = None, audio_sample_rate = Some 44100\<rparr>"]
    validation_errors [of "\<lparr>audio_waveform = Some NotATensor, audio_sample_rate = Some 44100\<rparr>"]
    validation_errors [of "\<lparr>audio_waveform = Some (Tensor \<lparr>shape = [2, 4], elems = replicate 8 0\<rparr>),
         audio_sample_rate = Some 44100\<rparr>" "\<lparr>shape = [2, 4], elems = replicate 8 0\<rparr>"]
    validation_errors [of "\<lparr>audio_waveform = Some (Tensor \<lparr>shape = [1, 3, 0], elems = []\<rparr>),
         audio_sample_rate = Some 44100\<rparr>" "\<lparr>shape = [1, 3, 0], elems = []\<rparr>"]
  by simp

section \<open>Gain clamping\<close>

text \<open>
  Claim C5. The linear gain of a band is \<open>10\<close> to the power \<open>db / 20\<close>, where \<open>db\<close> is the
  requested gain as it is in \<^verbatim>\<open>process_rfft\<close>, the smaller of the requested gain and
  \<open>12\<close> in \<^verbatim>\<open>process_hann\<close> (nothing bounds it from below), and the requested gain
  clamped to the interval from \<open>-24\<close> to \<open>24\<close> in \<^verbatim>\<open>process_subcomp\<close>.
\<close>

theorem gain_clamping:
  "rfft_gain g b = 10 powr (gain_db g b / 20)
   \<and> hann_gains_linear g b = 10 powr (min (gain_db g b) 12 / 20)
   \<and> subcomp_gains_linear g b = 10 powr (max (min (gain_db g b) 24) (- 24) / 20)"
  by (cases b) (simp_all add: hann_gains_linear_def subcomp_gains_linear_def
      max_gain_db_hann_def max_gain_db_def min_gain_db_def)

section \<open>The soft-knee compressor\<close>

lemma compression_amount_le_0: "compression_amount over \<le> 0"
proof -
  have "(3 / 4) * (over + 5 / 2)\<^sup>2 / 10 \<ge> 0" by simp
  then show ?thesis
    by (auto simp add: compression_amount_def knee_def ratio_def Let_def)
qed

lemma gain_reduction_linear_bounds:
  "0 < gain_reduction_linear m bm \<and> gain_reduction_linear m bm \<le> 1"
proof -
  have "compression_amount (over_threshold_of m bm) / 20 \<le> 0"
    using compression_amount_le_0 [of "over_threshold_of m bm"] by simp
  then have "(10::real) powr (compression_amount (over_threshold_of m bm) / 20) \<le> 10 powr 0"
    by (intro powr_mono) simp_all
  then show ?thesis
    by (simp add: gain_reduction_linear_def)
qed

text \<open>
  Claim C8. With threshold \<open>-20\<close> dB, ratio \<open>4\<close> and knee \<open>5\<close> dB, the compression amount
  of an element is \<open>0\<close> when its level over the threshold is at most \<open>-knee/2\<close>, the
  quadratic \<open>(1/ratio - 1) * (over + knee/2)\<^sup>2 / (2 * knee)\<close> when it is above \<open>-knee/2\<close>
  and at most \<open>knee/2\<close>, and \<open>(1/ratio - 1) * over\<close> above \<open>knee/2\<close>. It is never positive,
  so the linear factor \<open>10\<close> to the power \<open>compression / 20\<close> is positive and at most \<open>1\<close>,
  for every magnitude and mask value.
\<close>

theorem soft_knee_compression:
  "threshold = - 20 \<and> ratio = 4 \<and> knee = 5
   \<and> (over \<le> - knee / 2 \<longrightarrow> compression_amount over = 0)
   \<and> (- knee / 2 < over \<and> over \<le> knee / 2 \<longrightarrow>
        compression_amount over = (1 / ratio - 1) * (over + knee / 2)\<^sup>2 / (2 * knee))
   \<and> (knee / 2 < over \<longrightarrow> compression_amount over = (1 / ratio - 1) * over)
   \<and> compression_amount over \<le> 0
   \<and> 0 < 10 powr (compression_amount over / 20)
   \<and> 10 powr (compression_amount over / 20) \<le> 1
   \<and> gain_reduction_linear m bm = 10 powr (compression_amount (over_threshold_of m bm) / 20)
   \<and> 0 < gain_reduction_linear m bm \<and> gain_reduction_linear m bm \<le> 1"
proof -
  have "compression_amount over / 20 \<le> 0"
    using compression_amount_le_0 [of over] by simp
  then have "(10::real) powr (compression_amount over / 20) \<le> 10 powr 0"
    by (intro powr_mono) simp_all
  moreover have "(over \<le> - knee / 2 \<longrightarrow> compression_amount over = 0)
     \<and> (- knee / 2 < over \<and> over \<le> knee / 2 \<longrightarrow>
          compression_amount over = (1 / ratio - 1) * (over + knee / 2)\<^sup>2 / (2 * knee))
     \<and> (knee / 2 < over \<longrightarrow> compression_amount over = (1 / ratio - 1) * over)"
    by (simp add: compression_amount_def knee_def ratio_def)
  ultimately show ?thesis
    using compression_amount_le_0 [of over] gain_reduction_linear_bounds [of m bm]
    by (simp add: threshold_def ratio_def knee_def gain_reduction_linear_def)
qed

theorem soft_knee_compression_witness:
  "(- 10 :: real) \<le> - knee / 2 \<and> compression_amount (- 10) = 0
   \<and> - knee / 2 < (0 :: real) \<and> (0 :: real) \<le> knee / 2 \<and> compression_amount 0 = - 15 / 32
   \<and> knee / 2 < (10 :: real) \<and> compression_amount 10 = - 15 / 2"
proof -
  have k: "knee = 5" "ratio = 4"
    using soft_knee_compression [of 0 0 0] by simp_all
  have "compression_amount (- 10) = 0"
    using soft_knee_compression [of "- 10" 0 0] by (simp add: k)
  moreover have "compression_amount 0 = - 15 / 32"
    using soft_knee_compression [of 0 0 0] by (simp add: k power2_eq_square)
  moreover have "compression_amount 10 = - 15 / 2"
    using soft_knee_compression [of 10 0 0] by (simp add: k)
  ultimately show ?thesis
    by (simp add: k)
qed

section \<open>The compression step on the spectrum\<close>

lemma nth_magnitude_compressed:
  "i < length (elems X) \<Longrightarrow>
   elems (magnitude_compressed freq_bins X) ! i =
     (let bm = bass_mask freq_bins ! freq_index (shape X) i; magnitude = cmod (elems X ! i)
      in magnitude * (1 + gain_reduction_linear magnitude bm * bm))"
  by (simp add: magnitude_compressed_def)

text \<open>
  Claim C10. For every spectrum \<open>X\<close> that reaches the compression step of
  \<^verbatim>\<open>process_subcomp\<close> and every element \<open>i\<close> of it, at frequency bin
  \<open>freq_index (shape X) i\<close>: when the frequency of the bin is between 20 Hz and 250 Hz,
  both included, the magnitude after the step (before the makeup gain) is the magnitude
  before it times \<open>1 + gain_reduction_linear\<close>, a factor above \<open>1\<close> and at most \<open>2\<close>, so
  the magnitude does not decrease; at every other bin the magnitude is unchanged.
\<close>

theorem compression_step:
  assumes "i < length (elems X)" and "freq_index (shape X) i < length freq_bins"
  shows "(20 \<le> freq_bins ! freq_index (shape X) i \<and> freq_bins ! freq_index (shape X) i \<le> 250 \<longrightarrow>
            elems (magnitude_compressed freq_bins X) ! i
              = cmod (elems X ! i) * (1 + gain_reduction_linear (cmod (elems X ! i)) 1)
            \<and> 1 < 1 + gain_reduction_linear (cmod (elems X ! i)) 1
            \<and> 1 + gain_reduction_linear (cmod (elems X ! i)) 1 \<le> 2
            \<and> cmod (elems X ! i) \<le> elems (magnitude_compressed freq_bins X) ! i)
       \<and> (\<not> (20 \<le> freq_bins ! freq_index (shape X) i \<and> freq_bins ! freq_index (shape X) i \<le> 250) \<longrightarrow>
            elems (magnitude_compressed freq_bins X) ! i = cmod (elems X ! i))"
proof -
  let ?m = "cmod (elems X ! i)"
  have b: "0 < gain_reduction_linear ?m 1" "gain_reduction_linear ?m 1 \<le> 1"
    using gain_reduction_linear_bounds by simp_all
  have "?m * 1 \<le> ?m * (1 + gain_reduction_linear ?m 1)"
    using b by (intro mult_left_mono) simp_all
  then show ?thesis
    using assms b by (simp add: nth_magnitude_compressed bass_mask_def Let_def)
qed

theorem compression_step_witness:
  "elems (magnitude_compressed [100, 1000] \<lparr>shape = [1, 2, 1], elems = [3, 4]\<rparr>) ! 0
     = 3 * (1 + gain_reduction_linear 3 1)
   \<and> 1 < 1 + gain_reduction_linear 3 1
   \<and> 1 + gain_reduction_linear 3 1 \<le> 2
   \<and> 3 \<le> elems (magnitude_compressed [100, 1000] \<lparr>shape = [1, 2, 1], elems = [3, 4]\<rparr>) ! 0
   \<and> elems (magnitude_compressed [100, 1000] \<lparr>shape = [1, 2, 1], elems = [3, 4]\<rparr>) ! 1 = 4"
  using compression_step [of 0 "\<lparr>shape = [1, 2, 1], elems = [3, 4]\<rparr>" "[100, 1000]"]
    compression_step [of 1 "\<lparr>shape = [1, 2, 1], elems = [3, 4]\<rparr>" "[100, 1000]"]
  by (simp add: freq_index_def)

section \<open>The band tables\<close>

lemma shape_masked_mul [simp]: "shape (masked_mul m gain gf) = shape gf"
  by (simp add: masked_mul_def)

lemma length_masked_mul [simp]: "length (elems (masked_mul m gain gf)) = length (elems gf)"
  by (simp add: masked_mul_def)

lemma nth_masked_mul:
  "i < length (elems gf) \<Longrightarrow>
   elems (masked_mul m gain gf) ! i
     = (if m ! (i mod length m) then elems gf ! i * complex_of_real gain else elems gf ! i)"
  by (simp add: masked_mul_def)

lemma nth_band_mask:
  "k < length freq_bins \<Longrightarrow>
   band_mask freq_bins f_start f_end ! k \<longleftrightarrow> f_start \<le> freq_bins ! k \<and> freq_bins ! k < f_end"
  by (simp add: band_mask_def)

lemma length_band_mask [simp]: "length (band_mask freq_bins f_start f_end) = length freq_bins"
  by (simp add: band_mask_def)

text \<open>An element whose bin lies in none of the bands keeps its factor through the loop.\<close>

lemma fold_masked_mul_outside:
  assumes "freq_bins \<noteq> []"
    and "\<forall>(b, f_start, f_end) \<in> set bands.
           \<not> (f_start \<le> freq_bins ! (i mod length freq_bins)
              \<and> freq_bins ! (i mod length freq_bins) < f_end)"
    and "i < length (elems gf)"
  shows "elems (fold (\<lambda>(band, f_start, f_end) gain_factors.
             masked_mul (band_mask freq_bins f_start f_end) (gain_of band) gain_factors) bands gf) ! i
         = elems gf ! i"
  using assms(2,3)
proof (induction bands arbitrary: gf)
  case Nil
  then show ?case by simp
next
  case (Cons b bands)
  obtain band f_start f_end where b: "b = (band, f_start, f_end)" by (cases b) auto
  have k: "i mod length freq_bins < length freq_bins" using assms(1) by simp
  have "\<not> (f_start \<le> freq_bins ! (i mod length freq_bins)
            \<and> freq_bins ! (i mod length freq_bins) < f_end)"
    using Cons.prems(1) by (auto simp add: b)
  then have "elems (masked_mul (band_mask freq_bins f_start f_end) (gain_of band) gf) ! i
               = elems gf ! i"
    using Cons.prems(2) k by (auto simp add: nth_masked_mul nth_band_mask)
  then show ?case
    using Cons.prems Cons.IH [of "masked_mul (band_mask freq_bins f_start f_end) (gain_of band) gf"]
    by (simp add: b)
qed

text \<open>
  Claim C6. The brilliance band ends at the constant 20000 Hz in the table of
  \<^verbatim>\<open>process_rfft\<close> and at \<open>sample_rate / 2\<close> in the table of the two windowed strategies.
  So in \<^verbatim>\<open>process_rfft\<close> the gain factor of every element whose frequency bin is at
  20000 Hz or above is exactly \<open>1\<close>, whatever the seven gains are.
\<close>

theorem brilliance_upper_bound:
  assumes "i < length (elems waveform_fft)" and "freq_bins \<noteq> []"
    and "20000 \<le> freq_bins ! (i mod length freq_bins)"
  shows "map_of rfft_bands Brilliance = Some (6000, 20000)
         \<and> map_of (stft_bands sample_rate) Brilliance = Some (6000, sample_rate / 2)
         \<and> elems (rfft_gain_factors g freq_bins waveform_fft) ! i = 1"
proof -
  have "elems (rfft_gain_factors g freq_bins waveform_fft) ! i = elems (ones_like waveform_fft) ! i"
    unfolding rfft_gain_factors_def
    using assms by (intro fold_masked_mul_outside) (auto simp add: rfft_bands_def ones_like_def)
  then show ?thesis
    using assms(1) by (simp add: rfft_bands_def stft_bands_def ones_like_def)
qed

theorem brilliance_upper_bound_witness:
  "(2::nat) < length (elems \<lparr>shape = [1, 1, 3], elems = [1, 2, 3 :: complex]\<rparr>)
   \<and> linspace 0 (48000 / 2) 3 \<noteq> []
   \<and> 20000 \<le> linspace 0 (48000 / 2) 3 ! (2 mod length (linspace 0 (48000 / 2) 3))
   \<and> elems (rfft_gain_factors (default_gains\<lparr>brilliance_gain_db := 6\<rparr>) (linspace 0 (48000 / 2) 3)
              \<lparr>shape = [1, 1, 3], elems = [1, 2, 3]\<rparr>) ! 2 = 1"
proof -
  have l: "linspace 0 24000 3 = [0, 12000, 24000]"
    by (simp add: linspace_def upt_rec)
  show ?thesis
    using brilliance_upper_bound [of 2 "\<lparr>shape = [1, 1, 3], elems = [1, 2, 3]\<rparr>"
        "linspace 0 (48000 / 2) 3" 48000 "default_gains\<lparr>brilliance_gain_db := 6\<rparr>"]
    by (simp add: l)
qed

section \<open>Zero-width bands\<close>

lemma nth_linspace_last: "1 < n \<Longrightarrow> linspace a b n ! (n - 1) = b"
  by (simp add: linspace_def)

text \<open>
  Claim C7, at the input where the code departs from it. In \<^verbatim>\<open>process_subcomp\<close> the
  divisor of the Gaussian profile is nonzero for every band at every positive sample
  rate: the guard replaces a zero width by \<open>0.01 * f_end\<close>. \<^verbatim>\<open>process_hann\<close> has no such
  guard: at the sample rate 12000 the brilliance band is \<open>(6000, 6000)\<close>, its divisor
  \<open>bandwidth / 2\<close> is zero, and the profile at the last of the 1025 bins (6000 Hz) is
  \<open>0 / 0\<close>, NaN.
\<close>

theorem zero_width_brilliance_band:
  "map_of (stft_bands 12000) Brilliance = Some (6000, 6000)
   \<and> hann_divisor 6000 6000 = 0
   \<and> hann_gain_profile (linspace 0 (12000 / 2) 1025) gain 6000 6000 ! 1024 = None
   \<and> subcomp_divisor 6000 6000 = 30
   \<and> (0 < sample_rate \<and> (b, f_start, f_end) \<in> set (stft_bands sample_rate)
        \<longrightarrow> subcomp_divisor f_start f_end \<noteq> 0)"
proof -
  have "linspace 0 (12000 / 2) 1025 ! (1025 - 1) = 12000 / 2"
    by (rule nth_linspace_last) simp
  then have "linspace 0 (12000 / 2) 1025 ! 1024 = 6000" by simp
  moreover have "0 < sample_rate \<and> (b, f_start, f_end) \<in> set (stft_bands sample_rate)
        \<longrightarrow> subcomp_divisor f_start f_end \<noteq> 0"
    by (auto simp add: stft_bands_def subcomp_divisor_def Let_def)
  ultimately show ?thesis
    by (simp add: stft_bands_def hann_divisor_def hann_gain_profile_def gaussian_def
        subcomp_divisor_def)
qed

theorem zero_width_brilliance_band_witness:
  "(0::real) < 12000 \<and> (Brilliance, 6000, 6000) \<in> set (stft_bands 12000)
   \<and> subcomp_divisor 6000 6000 \<noteq> 0 \<and> hann_divisor 6000 6000 = 0"
  using zero_width_brilliance_band [of 1 12000 Brilliance 6000 6000]
  by (simp add: stft_bands_def)

section \<open>All gains at 0 dB\<close>

lemma subcomp_gains_linear_default [simp]: "subcomp_gains_linear default_gains b = 1"
  by (cases b) (simp_all add: subcomp_gains_linear_def default_gains_def max_gain_db_def min_gain_db_def)

lemma hann_gains_linear_default [simp]: "hann_gains_linear default_gains b = 1"
  by (cases b) (simp_all add: hann_gains_linear_def default_gains_def max_gain_db_hann_def)

lemma mul_profile_ones:
  assumes "0 < shape gf ! 1" "length gain_profile = shape gf ! 1" "\<forall>p \<in> set gain_profile. p = 1"
  shows "mul_profile gain_profile gf = gf"
proof -
  have "imap (\<lambda>i z. z * complex_of_real (gain_profile ! freq_index (shape gf) i)) (elems gf) = elems gf"
  proof (rule nth_equalityI)
    fix i assume "i < length (imap (\<lambda>i z. z * complex_of_real (gain_profile ! freq_index (shape gf) i)) (elems gf))"
    then have i: "i < length (elems gf)" by simp
    have "gain_profile ! freq_index (shape gf) i = 1"
      using assms freq_index_less [of "shape gf" i] by simp
    then show "imap (\<lambda>i z. z * complex_of_real (gain_profile ! freq_index (shape gf) i)) (elems gf) ! i = elems gf ! i"
      using i by simp
  qed simp
  then show ?thesis by (simp add: mul_profile_def)
qed

lemma subcomp_gain_factors_default:
  assumes "0 < shape X ! 1" "length freq_bins = shape X ! 1"
  shows "subcomp_gain_factors default_gains sr freq_bins X = ones_like X"
proof -
  have *: "\<And>fs fe gf. shape gf = shape X \<Longrightarrow>
     mul_profile (subcomp_gain_profile freq_bins 1 fs fe) gf = gf"
    using assms by (intro mul_profile_ones) (auto simp add: subcomp_gain_profile_def)
  have s: "shape (ones_like X) = shape X" by (simp add: ones_like_def)
  show ?thesis
    by (simp add: subcomp_gain_factors_def stft_bands_def * s)
qed

lemma tensor_mul_ones: "tensor_mul X (ones_like X) = X"
proof -
  have "map2 (*) (elems X) (map (\<lambda>_. 1::complex) (elems X)) = elems X"
    by (rule nth_equalityI) simp_all
  then show ?thesis by (simp add: tensor_mul_def ones_like_def)
qed

lemma subcomp_stft_eq_default:
  "0 < shape X ! 1 \<Longrightarrow> subcomp_stft_eq default_gains sr X = X"
  by (simp add: subcomp_stft_eq_def subcomp_gain_factors_default tensor_mul_ones)

lemma mul_profile_opt_ones:
  assumes "0 < shape gf ! 1" "length gain_profile = shape gf ! 1" "\<forall>p \<in> set gain_profile. p = Some 1"
  shows "mul_profile_opt gain_profile gf = gf"
proof -
  let ?f = "\<lambda>i z. case (z, gain_profile ! freq_index (shape gf) i) of
                     (Some a, Some p) \<Rightarrow> Some (a * complex_of_real p)
                   | _ \<Rightarrow> None"
  have "imap ?f (elems gf) = elems gf"
  proof (rule nth_equalityI)
    fix i assume "i < length (imap ?f (elems gf))"
    then have i: "i < length (elems gf)" by simp
    have "gain_profile ! freq_index (shape gf) i = Some 1"
      using assms freq_index_less [of "shape gf" i] by simp
    then show "imap ?f (elems gf) ! i = elems gf ! i"
      using i by (simp split: option.splits)
  qed simp
  then show ?thesis by (simp add: mul_profile_opt_def)
qed

lemma hann_gain_profile_unit:
  assumes "hann_divisor f_start f_end \<noteq> 0"
  shows "\<forall>p \<in> set (hann_gain_profile freq_bins 1 f_start f_end). p = Some 1"
  using assms by (auto simp add: hann_gain_profile_def gaussian_def)

lemma length_hann_gain_profile [simp]:
  "length (hann_gain_profile freq_bins gain f_start f_end) = length freq_bins"
  by (simp add: hann_gain_profile_def)

lemma hann_gain_factors_default:
  assumes "0 < shape X ! 1" "length freq_bins = shape X ! 1" "sr / 2 \<noteq> 6000"
  shows "hann_gain_factors default_gains sr freq_bins X
           = \<lparr>shape = shape X, elems = map (\<lambda>_. Some 1) (elems X)\<rparr>"
proof -
  have *: "\<And>fs fe gf. shape gf = shape X \<Longrightarrow> hann_divisor fs fe \<noteq> 0 \<Longrightarrow>
     mul_profile_opt (hann_gain_profile freq_bins 1 fs fe) gf = gf"
    using assms by (intro mul_profile_opt_ones hann_gain_profile_unit) auto
  have d: "hann_divisor 20 60 \<noteq> 0" "hann_divisor 60 250 \<noteq> 0" "hann_divisor 250 500 \<noteq> 0"
    "hann_divisor 500 2000 \<noteq> 0" "hann_divisor 2000 4000 \<noteq> 0" "hann_divisor 4000 6000 \<noteq> 0"
    "hann_divisor 6000 (sr / 2) \<noteq> 0"
    using assms(3) by (simp_all add: hann_divisor_def)
  show ?thesis
    by (simp add: hann_gain_factors_def stft_bands_def * d)
qed

lemma hann_stft_eq_default:
  assumes "0 < shape X ! 1" "sr / 2 \<noteq> 6000"
  shows "hann_stft_eq default_gains sr X = \<lparr>shape = shape X, elems = map Some (elems X)\<rparr>"
proof -
  have "map2 (\<lambda>z gf. map_option (\<lambda>c. z * c) gf) (elems X) (map (\<lambda>_. Some 1) (elems X))
          = map Some (elems X)"
    by (rule nth_equalityI) simp_all
  then show ?thesis
    using assms by (simp add: hann_stft_eq_def hann_gain_factors_default)
qed

lemma bass_bin_default_gains:
  assumes "sample_rate / 2 \<noteq> 6000" and "0 < shape X ! 1" and "i < length (elems X)"
    and "freq_bins = linspace 0 (sample_rate / 2) (shape X ! 1)"
    and "20 \<le> freq_bins ! freq_index (shape X) i" and "freq_bins ! freq_index (shape X) i \<le> 250"
    and "elems X ! i \<noteq> 0"
  shows "elems (hann_stft_eq default_gains sample_rate X) ! i = Some (elems X ! i)
         \<and> cmod (elems X ! i)
             < elems (magnitude_compressed freq_bins (subcomp_stft_eq default_gains sample_rate X)) ! i"
proof -
  let ?m = "cmod (elems X ! i)"
  have k: "freq_index (shape X) i < length freq_bins"
    using assms(2,4) freq_index_less [of "shape X" i] by simp
  have "0 < gain_reduction_linear ?m 1"
    using gain_reduction_linear_bounds by simp
  moreover have "0 < ?m" using assms(7) by simp
  ultimately have "?m * 1 < ?m * (1 + gain_reduction_linear ?m 1)"
    by (intro mult_strict_left_mono) simp_all
  moreover have "elems (magnitude_compressed freq_bins X) ! i
                   = ?m * (1 + gain_reduction_linear ?m 1)"
    using assms(3,5,6) k by (simp add: nth_magnitude_compressed bass_mask_def Let_def)
  ultimately show ?thesis
    using assms(1,2,3) by (simp add: hann_stft_eq_default subcomp_stft_eq_default)
qed

section \<open>The squared-window sum of the inverse transform\<close>

lemma sin_pi_pow2: "1 / 2 ^ k \<le> sin (pi / 2 ^ Suc k)"
proof (induction k)
  case 0
  then show ?case by simp
next
  case (Suc k)
  let ?y = "pi / 2 ^ Suc (Suc k)"
  have "(1::real) \<le> 2 ^ Suc (Suc k)" by (rule one_le_power) simp
  then have "pi / 2 ^ Suc (Suc k) \<le> pi / 1"
    by (intro divide_left_mono) simp_all
  then have y: "0 \<le> ?y" "?y \<le> pi" by simp_all
  have "sin (2 * ?y) = 2 * sin ?y * cos ?y" by (rule sin_double)
  also have "\<dots> \<le> 2 * sin ?y * 1"
    using sin_ge_zero [OF y] by (intro mult_left_mono) simp_all
  finally have "sin (2 * ?y) \<le> 2 * sin ?y" by simp
  moreover have "2 * ?y = pi / 2 ^ Suc k" by simp
  ultimately have "sin (pi / 2 ^ Suc k) \<le> 2 * sin ?y" by simp
  with Suc.IH have "1 / 2 ^ k \<le> 2 * sin ?y" by linarith
  then show ?case by (simp add: field_simps)
qed

lemma sin_pi_1024: "1 / 512 \<le> sin (pi / 1024)"
  using sin_pi_pow2 [of 9] by simp

lemma nth_hann_window: "i < n \<Longrightarrow> hann_window n ! i = (1 - cos (2 * pi * real i / real n)) / 2"
  by (simp add: hann_window_def)

lemma length_hann_window [simp]: "length (hann_window n) = n"
  by (simp add: hann_window_def)

lemma hann_window_tail:
  assumes "r \<le> 1022"
  shows "(1 / 512)\<^sup>2 \<le> hann_window 2048 ! (r + 1024)"
proof -
  have e: "2 * pi * real (r + 1024) / real 2048 = pi * real r / 1024 + pi"
    by (simp add: field_simps)
  have "cos (2 * pi * real (r + 1024) / real 2048) = - cos (pi * real r / 1024)"
    unfolding e by (rule cos_periodic_pi)
  moreover have "r + 1024 < 2048" using assms by simp
  ultimately have w: "hann_window 2048 ! (r + 1024) = (1 + cos (pi * real r / 1024)) / 2"
    by (simp only: nth_hann_window diff_minus_eq_add)
  have "real r \<le> 1022" using assms by simp
  then have "pi * real r \<le> pi * 1022"
    by (intro mult_left_mono) simp_all
  then have le: "pi * real r / 1024 \<le> pi * 1022 / 1024"
    by (intro divide_right_mono) simp_all
  have "pi * 1022 / 1024 \<le> pi * 1024 / 1024"
    by (intro divide_right_mono mult_left_mono) simp_all
  then have "pi * 1022 / 1024 \<le> pi" by simp
  moreover have "0 \<le> pi * real r / 1024" by simp
  ultimately have c: "cos (pi * 1022 / 1024) \<le> cos (pi * real r / 1024)"
    using le by (intro cos_monotone_0_pi_le)
  have "pi * 1022 / 1024 = pi - 2 * (pi / 1024)" by (simp add: field_simps)
  then have "cos (pi * 1022 / 1024) = - (1 - 2 * (sin (pi / 1024))\<^sup>2)"
    by (simp only: cos_pi_minus cos_double_sin)
  with c have "(sin (pi / 1024))\<^sup>2 \<le> (1 + cos (pi * real r / 1024)) / 2"
    by simp
  moreover have "(1 / 512)\<^sup>2 \<le> (sin (pi / 1024))\<^sup>2"
    using sin_pi_1024 by (intro power_mono) simp_all
  ultimately show ?thesis unfolding w by (rule order_trans [rotated])
qed

lemma hann_window_1023: "1 / 2 \<le> hann_window 2048 ! 1023"
proof -
  have e: "2 * pi * real 1023 / real 2048 = pi - pi / 1024" by (simp add: field_simps)
  have "cos (2 * pi * real 1023 / real 2048) = - cos (pi / 1024)"
    unfolding e by (rule cos_pi_minus)
  moreover have "(1023::nat) < 2048" by simp
  ultimately have w: "hann_window 2048 ! 1023 = (1 + cos (pi / 1024)) / 2"
    by (simp only: nth_hann_window diff_minus_eq_add)
  have "pi / 1024 \<le> pi / 2" by (intro divide_left_mono) simp_all
  moreover have "- (pi / 2) \<le> pi / 1024" by simp
  ultimately have "0 \<le> cos (pi / 1024)"
    by (intro cos_ge_zero)
  then show ?thesis unfolding w by simp
qed

lemma window_envelope_ge:
  assumes "1024 \<le> q" and "q < 1024 + n"
  shows "1 / 10 ^ 11 \<le> window_envelope 2048 1024 (hann_window 2048) (1 + n div 1024) q"
proof -
  let ?w = "hann_window 2048"
  let ?summand = "\<lambda>t. if t * 1024 \<le> q \<and> q < t * 1024 + 2048 then (?w ! (q - t * 1024))\<^sup>2 else 0"
  have env: "window_envelope 2048 1024 ?w (1 + n div 1024) q = (\<Sum>t<1 + n div 1024. ?summand t)"
    by (simp add: window_envelope_def)
  have ge: "\<And>t. t < 1 + n div 1024 \<Longrightarrow> ?summand t \<le> (\<Sum>t<1 + n div 1024. ?summand t)"
    by (intro member_le_sum) simp_all
  define m' where "m' = q div 1024 - 1"
  define r where "r = q mod 1024"
  have "1 \<le> q div 1024" using assms(1) by (simp add: less_eq_div_iff_mult_less_eq)
  then have "q div 1024 = Suc m'" by (simp add: m'_def)
  then have q: "q = Suc m' * 1024 + r" and r: "r < 1024"
    using div_mult_mod_eq [of q 1024] by (simp_all add: r_def)
  have num: "(1::real) / 10 ^ 11 \<le> ((1 / 512)\<^sup>2)\<^sup>2" "(1::real) / 10 ^ 11 \<le> (1 / 2)\<^sup>2"
    by (simp_all add: power2_eq_square)
  show ?thesis
  proof (cases "r \<le> 1022")
    case True
    have "m' * 1024 \<le> n" using assms(2) q by simp
    then have "m' \<le> n div 1024" by (simp add: less_eq_div_iff_mult_less_eq)
    then have t: "m' < 1 + n div 1024" by simp
    have "(1 / 512)\<^sup>2 \<le> ?w ! (r + 1024)" using True by (rule hann_window_tail)
    then have "((1 / 512)\<^sup>2)\<^sup>2 \<le> (?w ! (r + 1024))\<^sup>2"
      by (intro power_mono) simp_all
    with num(1) have "1 / 10 ^ 11 \<le> (?w ! (r + 1024))\<^sup>2"
      by (rule order_trans)
    moreover have "?summand m' = (?w ! (r + 1024))\<^sup>2"
      using r by (simp add: q add.commute)
    ultimately have "1 / 10 ^ 11 \<le> ?summand m'" by (simp only:)
    with ge [OF t] show ?thesis by (simp only: env)
  next
    case False
    then have r1023: "r = 1023" using r by simp
    have "Suc m' * 1024 \<le> n" using assms(2) q r1023 by simp
    then have "Suc m' \<le> n div 1024" by (simp add: less_eq_div_iff_mult_less_eq)
    then have t: "Suc m' < 1 + n div 1024" by simp
    have "(1 / 2)\<^sup>2 \<le> (?w ! 1023)\<^sup>2"
      using hann_window_1023 by (intro power_mono) simp_all
    with num(2) have "1 / 10 ^ 11 \<le> (?w ! 1023)\<^sup>2"
      by (rule order_trans)
    moreover have "?summand (Suc m') = (?w ! 1023)\<^sup>2"
      by (simp add: q r1023)
    ultimately have "1 / 10 ^ 11 \<le> ?summand (Suc m')" by (simp only:)
    with ge [OF t] show ?thesis by (simp only: env)
  qed
qed

section \<open>Shapes and lengths\<close>

lemma length_rows [simp]: "length (rows n xs) = length xs div n"
  by (simp add: rows_def)

lemma length_row:
  assumes "r \<in> set (rows n xs)"
  shows "length r = n"
proof -
  obtain k where k: "k < length xs div n" and r: "r = take n (drop (k * n) xs)"
    using assms by (auto simp add: rows_def)
  have "Suc k \<le> length xs div n" using k by simp
  then have "Suc k * n \<le> length xs div n * n" by (rule mult_le_mono1)
  also have "\<dots> \<le> length xs" by simp
  finally have "k * n + n \<le> length xs" by simp
  then show ?thesis by (simp add: r)
qed

lemma length_concat_map:
  "(\<And>r. r \<in> set rs \<Longrightarrow> length (f r) = m) \<Longrightarrow> length (concat (map f rs)) = length rs * m"
  by (induction rs) simp_all

lemma length_rfft_row [simp]: "length (rfft_row x) = length x div 2 + 1"
  by (simp add: rfft_row_def)

lemma length_irfft_row [simp]: "length (irfft_row n X) = n"
  by (simp add: irfft_row_def)

lemma length_stft_row [simp]:
  "length (stft_row n_fft hop_length window x)
     = (n_fft div 2 + 1) * stft_frames n_fft hop_length (length x)"
  by (simp add: stft_row_def Let_def length_concat_map)

lemma length_istft_row [simp]: "length (istft_row n_fft hop_length window n_frames len X) = len"
  by (simp add: istft_row_def)

lemma length_map_rows:
  assumes "\<And>r. length r = n \<Longrightarrow> length (f r) = m"
  shows "length (concat (map f (rows n xs))) = length xs div n * m"
  using assms length_row [of _ n xs] by (simp add: length_concat_map)

lemma rfft_gain_factors_shape_length:
  "shape (rfft_gain_factors g freq_bins X) = shape X
   \<and> length (elems (rfft_gain_factors g freq_bins X)) = length (elems X)"
  by (simp add: rfft_gain_factors_def rfft_bands_def ones_like_def)

lemma normalize_waveform_Samples:
  assumes "elems t \<noteq> []"
  shows "\<exists>t'. normalize_waveform (Samples t) = Inr (Samples t') \<and> shape t' = shape t
           \<and> length (elems t') = length (elems t)"
  using assms by (simp add: torch_max_abs_def)

lemma process_rfft_returns:
  assumes wf: "wf_tensor w" and sh: "shape w = [b, c, n]" and c: "c = 1 \<or> c = 2"
    and b: "0 < b" and n: "0 < n"
  shows "\<exists>t. process_rfft \<lparr>audio_waveform = Some (Tensor w), audio_sample_rate = Some sr\<rparr> g
              = Inr \<lparr>audio_waveform = Samples t, audio_sample_rate = sr\<rparr>
            \<and> shape t = [b, c, n] \<and> wf_tensor t"
proof -
  let ?a = "\<lparr>audio_waveform = Some (Tensor w), audio_sample_rate = Some sr\<rparr>"
  have len: "length (elems w) = b * c * n"
    using wf sh by (simp add: wf_tensor_def)
  have chk: "check_input ?a = Inr (w, sr, b, c, n)"
    using sh c by (auto simp add: check_input_cases)
  define K where "K = n div 2 + 1"
  have K: "0 < K" by (simp add: K_def)
  define wfft where "wfft = \<lparr>shape = [b, c, K],
    elems = concat (map rfft_row (rows n (elems w)))\<rparr>"
  have rf: "fft_rfft w = Inr wfft"
    using sh n by (simp add: fft_rfft_def wfft_def K_def)
  have "length (elems wfft) = length (elems w) div n * K"
    unfolding wfft_def K_def by (simp add: length_map_rows)
  then have lf: "length (elems wfft) = b * c * K"
    using n by (simp add: len)
  define weq where "weq = tensor_mul wfft
    (rfft_gain_factors g (linspace 0 (sr / 2) (last (shape wfft))) wfft)"
  have seq: "shape weq = [b, c, K]"
    by (simp add: weq_def tensor_mul_def wfft_def)
  have leq: "length (elems weq) = b * c * K"
    by (simp add: weq_def tensor_mul_def rfft_gain_factors_shape_length lf)
  define wout where "wout = \<lparr>shape = [b, c, n],
    elems = concat (map (irfft_row n) (rows K (elems weq)))\<rparr>"
  have irf: "fft_irfft weq n = Inr wout"
    using n K by (simp add: fft_irfft_def seq wout_def)
  have "length (elems wout) = length (elems weq) div K * n"
    unfolding wout_def by (simp add: length_map_rows)
  then have lout: "length (elems wout) = b * c * n"
    using K by (simp add: leq)
  have "elems wout \<noteq> []" using lout b c n by auto
  then obtain t where t: "normalize_waveform (Samples wout) = Inr (Samples t)"
    "shape t = shape wout" "length (elems t) = length (elems wout)"
    using normalize_waveform_Samples by blast
  have "process_rfft ?a g = Inr \<lparr>audio_waveform = Samples t, audio_sample_rate = sr\<rparr>"
    by (simp add: process_rfft_def chk rf Let_def weq_def [symmetric] irf t(1)
        del: normalize_waveform.simps)
  moreover have sw: "shape wout = [b, c, n]" by (simp add: wout_def)
  moreover have "wf_tensor t" by (simp add: wf_tensor_def t(2,3) lout sw)
  ultimately show ?thesis by (simp add: t(2))
qed

section \<open>The windowed strategies return\<close>

lemma stft_frames_2048: "stft_frames 2048 1024 n = 1 + n div 1024"
  by (simp add: stft_frames_def)

lemma view_rows_wf:
  assumes "wf_tensor w" "shape w = [b, c, n]" "0 < n"
  shows "view_rows w n = Inr \<lparr>shape = [b * c, n], elems = elems w\<rparr>"
  using assms by (simp add: view_rows_def wf_tensor_def)

lemma torch_stft_short:
  "n \<le> 1024 \<Longrightarrow> torch_stft \<lparr>shape = [R, n], elems = xs\<rparr> 2048 1024 window = Inl RuntimeError"
  by (simp add: torch_stft_def)

lemma torch_stft_ok:
  assumes "1024 < n" "length xs = R * n" "T = stft_frames 2048 1024 n"
  shows "\<exists>X. torch_stft \<lparr>shape = [R, n], elems = xs\<rparr> 2048 1024 (hann_window 2048) = Inr X
           \<and> shape X = [R, 1025, T] \<and> length (elems X) = R * (1025 * T)"
proof -
  have "length (concat (map (stft_row 2048 1024 (hann_window 2048)) (rows n xs)))
          = length xs div n * (1025 * T)"
    by (rule length_map_rows) (simp add: assms(3))
  then show ?thesis using assms by (simp add: torch_stft_def)
qed

lemma no_small_envelope:
  "\<not> list_ex (\<lambda>q. \<bar>window_envelope 2048 1024 (hann_window 2048) (1 + n div 1024) q\<bar> < 1 / 10 ^ 11)
       [1024..<min (1024 + n) e]"
proof -
  have "\<And>q. 1024 \<le> q \<Longrightarrow> q < 1024 + n \<Longrightarrow>
      \<not> \<bar>window_envelope 2048 1024 (hann_window 2048) (1 + n div 1024) q\<bar> < 1 / 10 ^ 11"
    using window_envelope_ge by (meson abs_ge_self not_less order_trans)
  then show ?thesis by (auto simp add: list_ex_iff)
qed

lemma torch_istft_ok:
  assumes sh: "shape Y = [R, 1025, T]" and ne: "elems Y \<noteq> []" and n: "0 < n"
    and len: "length (elems Y) = R * (1025 * T)" and T: "T = stft_frames 2048 1024 n"
  shows "\<exists>buf. torch_istft Y 2048 1024 (hann_window 2048) n = Inr buf
            \<and> buffer_shape buf = [R, n]
            \<and> (None \<in> set (elems Y) \<longleftrightarrow> buf = NaNs [R, n])
            \<and> (\<forall>t. buf = Samples t \<longrightarrow> length (elems t) = R * n)"
proof -
  have T0: "0 < 1025 * T" by (simp add: T stft_frames_2048)
  have "length (concat (map (istft_row 2048 1024 (hann_window 2048) T n)
            (rows (1025 * T) (map the (elems Y))))) = length (map the (elems Y)) div (1025 * T) * n"
    by (rule length_map_rows) simp
  then have l: "length (concat (map (istft_row 2048 1024 (hann_window 2048) T n)
            (rows (1025 * T) (map the (elems Y))))) = R * n"
    using T0 by (simp add: len)
  have "\<not> list_ex (\<lambda>q. \<bar>window_envelope 2048 1024 (hann_window 2048) T q\<bar> < 1 / 10 ^ 11)
       [1024..<min (1024 + n) (2048 + 1024 * (T - 1))]"
    unfolding T stft_frames_2048 by (rule no_small_envelope)
  then have "torch_istft Y 2048 1024 (hann_window 2048) n =
      Inr (if None \<in> set (elems Y) then NaNs [R, n]
           else Samples \<lparr>shape = [R, n],
                  elems = concat (map (istft_row 2048 1024 (hann_window 2048) T n)
                                    (rows (1025 * T) (map the (elems Y))))\<rparr>)"
    using ne n by (simp add: torch_istft_def sh Let_def)
  then show ?thesis using l by auto
qed

lemma shape_mul_profile_opt [simp]: "shape (mul_profile_opt p gf) = shape gf"
  by (simp add: mul_profile_opt_def)

lemma length_mul_profile_opt [simp]: "length (elems (mul_profile_opt p gf)) = length (elems gf)"
  by (simp add: mul_profile_opt_def)

lemma shape_mul_profile [simp]: "shape (mul_profile p gf) = shape gf"
  by (simp add: mul_profile_def)

lemma length_mul_profile [simp]: "length (elems (mul_profile p gf)) = length (elems gf)"
  by (simp add: mul_profile_def)

lemma hann_stft_eq_shape_length:
  "shape (hann_stft_eq g sr X) = shape X
   \<and> length (elems (hann_stft_eq g sr X)) = length (elems X)"
  by (simp add: hann_stft_eq_def Let_def hann_gain_factors_def stft_bands_def)



lemma normalize_waveform_returns:
  assumes "\<And>t. buf = Samples t \<Longrightarrow> elems t \<noteq> []"
  shows "\<exists>buf'. normalize_waveform buf = Inr buf' \<and> buffer_shape buf' = buffer_shape buf
           \<and> (\<forall>s. buf = NaNs s \<longleftrightarrow> buf' = NaNs s)
           \<and> (\<forall>t'. buf' = Samples t' \<longrightarrow>
                 (\<exists>t. buf = Samples t \<and> length (elems t') = length (elems t)))"
proof (cases buf)
  case (Samples t)
  then show ?thesis
    using normalize_waveform_Samples [of t] assms by auto
next
  case (NaNs s)
  then show ?thesis by simp
qed

lemma stft_path_returns:
  assumes wf: "wf_tensor w" and sh: "shape w = [b, c, n]" and c: "c = 1 \<or> c = 2"
    and b: "0 < b" and n: "1024 < n"
    and X: "torch_stft \<lparr>shape = [b * c, n], elems = elems w\<rparr> 2048 1024 (hann_window 2048) = Inr X"
    and Y: "shape Y = shape X" "length (elems Y) = length (elems X)"
  shows "\<exists>buf. (case torch_istft Y 2048 1024 (hann_window 2048) n of
                   Inl e \<Rightarrow> Inl e
                 | Inr waveform_eq \<Rightarrow>
                (case buffer_view waveform_eq [b, c, n] of
                   Inl e \<Rightarrow> Inl e
                 | Inr waveform_eq' \<Rightarrow>
                (case normalize_waveform waveform_eq' of
                   Inl e \<Rightarrow> Inl e
                 | Inr waveform_eq'' \<Rightarrow>
                     Inr \<lparr>audio_waveform = waveform_eq'', audio_sample_rate = sr\<rparr>)))
               = Inr \<lparr>audio_waveform = buf, audio_sample_rate = sr\<rparr>
            \<and> buffer_shape buf = [b, c, n]
            \<and> (None \<in> set (elems Y) \<longleftrightarrow> buf = NaNs [b, c, n])
            \<and> (\<forall>t. buf = Samples t \<longrightarrow> wf_tensor t)"
proof -
  define T where "T = stft_frames 2048 1024 n"
  have len: "length (elems w) = (b * c) * n"
    using wf sh by (simp add: wf_tensor_def)
  obtain X' where X': "torch_stft \<lparr>shape = [b * c, n], elems = elems w\<rparr> 2048 1024 (hann_window 2048) = Inr X'"
    "shape X' = [b * c, 1025, T]" "length (elems X') = (b * c) * (1025 * T)"
    using torch_stft_ok [OF n len T_def] by blast
  then have XX: "X' = X" using X by simp
  have shY: "shape Y = [b * c, 1025, T]" and lenY: "length (elems Y) = (b * c) * (1025 * T)"
    using Y X'(2,3) XX by simp_all
  have "0 < (b * c) * (1025 * T)" using b c by (auto simp add: T_def stft_frames_2048)
  then have neY: "elems Y \<noteq> []" using lenY by auto
  obtain buf0 where buf0: "torch_istft Y 2048 1024 (hann_window 2048) n = Inr buf0"
    "buffer_shape buf0 = [b * c, n]" "None \<in> set (elems Y) \<longleftrightarrow> buf0 = NaNs [b * c, n]"
    "\<forall>t. buf0 = Samples t \<longrightarrow> length (elems t) = (b * c) * n"
    using torch_istft_ok [OF shY neY _ lenY T_def] n by auto
  obtain buf1 where buf1: "buffer_view buf0 [b, c, n] = Inr buf1" "buffer_shape buf1 = [b, c, n]"
    "buf0 = NaNs [b * c, n] \<longleftrightarrow> buf1 = NaNs [b, c, n]"
    "\<forall>t. buf1 = Samples t \<longrightarrow> length (elems t) = (b * c) * n"
    using buf0(2,4) by (cases buf0) auto
  have pos: "0 < (b * c) * n" using b c n by auto
  have "\<And>t. buf1 = Samples t \<Longrightarrow> elems t \<noteq> []"
    using buf1(4) pos by auto
  then obtain buf where buf: "normalize_waveform buf1 = Inr buf" "buffer_shape buf = buffer_shape buf1"
    "\<forall>s. buf1 = NaNs s \<longleftrightarrow> buf = NaNs s"
    "\<forall>t'. buf = Samples t' \<longrightarrow> (\<exists>t. buf1 = Samples t \<and> length (elems t') = length (elems t))"
    using normalize_waveform_returns [of buf1] by blast
  have "\<forall>t. buf = Samples t \<longrightarrow> wf_tensor t"
    using buf(2,4) buf1(2,4) by (auto simp add: wf_tensor_def)
  then show ?thesis
    using buf0(1,3) buf1(1,2,3) buf(1,2,3) by (auto simp del: normalize_waveform.simps buffer_view.simps)
qed

lemma check_input_valid:
  assumes "shape w = [b, c, n]" "c = 1 \<or> c = 2"
  shows "check_input \<lparr>audio_waveform = Some (Tensor w), audio_sample_rate = Some sr\<rparr>
           = Inr (w, sr, b, c, n)"
  using assms by (auto simp add: check_input_cases)

lemma process_hann_unfold:
  assumes "check_input a = Inr (w, sr, b, c, n)"
    and "view_rows w n = Inr \<lparr>shape = [b * c, n], elems = elems w\<rparr>"
  shows "process_hann a g =
    (case torch_stft \<lparr>shape = [b * c, n], elems = elems w\<rparr> 2048 1024 (hann_window 2048) of
       Inl e \<Rightarrow> Inl e
     | Inr waveform_stft \<Rightarrow>
    (case torch_istft (hann_stft_eq g sr waveform_stft) 2048 1024 (hann_window 2048) n of
       Inl e \<Rightarrow> Inl e
     | Inr waveform_eq \<Rightarrow>
    (case buffer_view waveform_eq [b, c, n] of
       Inl e \<Rightarrow> Inl e
     | Inr waveform_eq' \<Rightarrow>
    (case normalize_waveform waveform_eq' of
       Inl e \<Rightarrow> Inl e
     | Inr waveform_eq'' \<Rightarrow>
         Inr \<lparr>audio_waveform = waveform_eq'', audio_sample_rate = sr\<rparr>))))"
  using assms by (auto simp add: process_hann_def Let_def split: sum.splits)



lemma process_hann_returns:
  assumes wf: "wf_tensor w" and sh: "shape w = [b, c, n]" and c: "c = 1 \<or> c = 2"
    and b: "0 < b" and n: "1024 < n"
  shows "\<exists>X buf. torch_stft \<lparr>shape = [b * c, n], elems = elems w\<rparr> 2048 1024 (hann_window 2048) = Inr X
            \<and> process_hann \<lparr>audio_waveform = Some (Tensor w), audio_sample_rate = Some sr\<rparr> g
                = Inr \<lparr>audio_waveform = buf, audio_sample_rate = sr\<rparr>
            \<and> buffer_shape buf = [b, c, n]
            \<and> (None \<in> set (elems (hann_stft_eq g sr X)) \<longleftrightarrow> buf = NaNs [b, c, n])
            \<and> (\<forall>t. buf = Samples t \<longrightarrow> wf_tensor t)"
proof -
  have len: "length (elems w) = (b * c) * n"
    using wf sh by (simp add: wf_tensor_def)
  obtain X where X: "torch_stft \<lparr>shape = [b * c, n], elems = elems w\<rparr> 2048 1024 (hann_window 2048) = Inr X"
    using torch_stft_ok [OF n len refl] by blast
  have n0: "0 < n" using n by simp
  show ?thesis
    using stft_path_returns [OF wf sh c b n X, of "hann_stft_eq g sr X" sr]
    by (simp add: process_hann_unfold [OF check_input_valid [OF sh c] view_rows_wf [OF wf sh n0]]
        X hann_stft_eq_shape_length del: normalize_waveform.simps buffer_view.simps)
qed








lemma fold_mul_profile_opt_shape_length:
  "shape (fold (\<lambda>(band, f_start, f_end) gain_factors.
             mul_profile_opt (profile band f_start f_end) gain_factors) bands gf) = shape gf
   \<and> length (elems (fold (\<lambda>(band, f_start, f_end) gain_factors.
             mul_profile_opt (profile band f_start f_end) gain_factors) bands gf)) = length (elems gf)"
  by (induction bands arbitrary: gf) (auto simp add: split_def)

lemma nth_mul_profile_opt_None:
  assumes "i < length (elems gf)" "p ! freq_index (shape gf) i = None"
  shows "elems (mul_profile_opt p gf) ! i = None"
  using assms by (cases "elems gf ! i") (simp_all add: mul_profile_opt_def)

lemma hann_nan_at_6000:
  assumes sr: "sr / 2 = 6000" and sh: "shape X = [R, 1025, T]"
    and len: "length (elems X) = R * (1025 * T)" and R: "0 < R" and T: "0 < T"
  shows "None \<in> set (elems (hann_stft_eq g sr X))"
proof -
  define fb where "fb = linspace 0 (sr / 2) (shape X ! 1)"
  define i where "i = 1024 * T"
  define G where "G = fold (\<lambda>(band, f_start, f_end) gain_factors.
             mul_profile_opt (hann_gain_profile fb (hann_gains_linear g band) f_start f_end) gain_factors)
       [(Sub_bass, 20, 60), (Bass, 60, 250), (Low_mid, 250, 500), (Mid, 500, 2000),
        (Upper_mid, 2000, 4000), (Presence, 4000, 6000)]
       \<lparr>shape = shape X, elems = map (\<lambda>_. Some (1::complex)) (elems X)\<rparr>"
  have G: "shape G = shape X" "length (elems G) = length (elems X)"
    unfolding G_def using fold_mul_profile_opt_shape_length
      [of "\<lambda>band. hann_gain_profile fb (hann_gains_linear g band)"] by simp_all
  have gf: "hann_gain_factors g sr fb X
      = mul_profile_opt (hann_gain_profile fb (hann_gains_linear g Brilliance) 6000 (sr / 2)) G"
    by (simp add: hann_gain_factors_def stft_bands_def G_def)
  have "1024 * T < 1 * (1025 * T)" using T by simp
  also have "\<dots> \<le> R * (1025 * T)" using R by (intro mult_le_mono1) simp
  finally have i: "i < length (elems X)" by (simp add: i_def len)
  have k: "freq_index (shape G) i = 1024"
    using T by (simp add: freq_index_def G(1) sh i_def)
  have "linspace 0 (sr / 2) 1025 ! (1025 - 1) = sr / 2"
    by (rule nth_linspace_last) simp
  then have "fb ! 1024 = 6000" using sr by (simp add: fb_def sh)
  moreover have "length fb = 1025" by (simp add: fb_def sh)
  ultimately have "hann_gain_profile fb (hann_gains_linear g Brilliance) 6000 (sr / 2) ! 1024 = None"
    by (simp add: hann_gain_profile_def gaussian_def hann_divisor_def sr)
  then have "elems (hann_gain_factors g sr fb X) ! i = None"
    unfolding gf using i k by (intro nth_mul_profile_opt_None) (simp_all add: G)
  moreover have "length (elems (hann_gain_factors g sr fb X)) = length (elems X)"
    by (simp add: gf G)
  moreover have "hann_stft_eq g sr X = \<lparr>shape = shape X,
      elems = map2 (\<lambda>z gf. map_option (\<lambda>c. z * c) gf) (elems X)
                (elems (hann_gain_factors g sr fb X))\<rparr>"
    by (simp only: hann_stft_eq_def Let_def fb_def)
  ultimately have "elems (hann_stft_eq g sr X) ! i = None"
    using i by simp
  moreover have "i < length (elems (hann_stft_eq g sr X))"
    using i by (simp add: hann_stft_eq_shape_length)
  ultimately show ?thesis by (metis nth_mem)
qed

lemma process_hann_nan:
  assumes wf: "wf_tensor w" and sh: "shape w = [b, c, n]" and c: "c = 1 \<or> c = 2"
    and b: "0 < b" and n: "1024 < n" and sr: "sr / 2 = 6000"
  shows "process_hann \<lparr>audio_waveform = Some (Tensor w), audio_sample_rate = Some sr\<rparr> g
           = Inr \<lparr>audio_waveform = NaNs [b, c, n], audio_sample_rate = sr\<rparr>"
proof -
  have len: "length (elems w) = (b * c) * n"
    using wf sh by (simp add: wf_tensor_def)
  obtain X where X: "torch_stft \<lparr>shape = [b * c, n], elems = elems w\<rparr> 2048 1024 (hann_window 2048) = Inr X"
    "shape X = [b * c, 1025, stft_frames 2048 1024 n]"
    "length (elems X) = (b * c) * (1025 * stft_frames 2048 1024 n)"
    using torch_stft_ok [OF n len refl] by blast
  have "0 < b * c" using b c by auto
  then have "None \<in> set (elems (hann_stft_eq g sr X))"
    using hann_nan_at_6000 [OF sr X(2,3)] by (simp add: stft_frames_2048)
  then show ?thesis
    using process_hann_returns [OF wf sh c b n, of sr g] X(1) by auto
qed

section \<open>Shape preservation\<close>




section \<open>Peak normalization\<close>

lemma normalize_waveform_contract:
  assumes ne: "elems t \<noteq> []"
  shows "normalize_waveform (Samples t)
        = Inr (Samples (if Max (set (map abs (elems t))) \<le> 1 then t
                        else t\<lparr>elems := map (\<lambda>x. x / Max (set (map abs (elems t)))) (elems t)\<rparr>))"
proof -
  define m where "m = Max (set (map abs (elems t)))"
  have "normalize_waveform (Samples t)
        = Inr (Samples (if m \<le> 1 then t else t\<lparr>elems := map (\<lambda>x. x / m) (elems t)\<rparr>))"
    using ne by (cases "m \<le> 1") (simp_all add: torch_max_abs_def m_def [symmetric] del: set_map)
  then show ?thesis unfolding m_def .
qed

lemma normalize_waveform_peak:
  assumes "normalize_waveform buf = Inr (Samples t')"
  shows "list_all (\<lambda>x. \<bar>x\<bar> \<le> 1) (elems t')"
proof (cases buf)
  case (NaNs s)
  then show ?thesis using assms by simp
next
  case (Samples t)
  define m where "m = Max (set (map abs (elems t)))"
  have ne: "elems t \<noteq> []"
    using assms Samples by (auto simp add: torch_max_abs_def split: if_splits)
  have le: "\<And>x. x \<in> set (elems t) \<Longrightarrow> \<bar>x\<bar> \<le> m"
    unfolding m_def by (intro Max_ge) auto
  have t': "t' = (if 1 < m then t\<lparr>elems := map (\<lambda>x. x / m) (elems t)\<rparr> else t)"
    using assms Samples ne by (auto simp add: torch_max_abs_def m_def split: if_splits)
  show ?thesis
  proof (cases "1 < m")
    case True
    then have "\<And>x. x \<in> set (elems t) \<Longrightarrow> \<bar>x / m\<bar> \<le> 1"
      using le by (simp add: divide_le_eq)
    then show ?thesis using True by (simp add: t' list_all_iff)
  next
    case False
    then have "\<And>x. x \<in> set (elems t) \<Longrightarrow> \<bar>x\<bar> \<le> 1"
      using le by fastforce
    then show ?thesis using False by (simp add: t' list_all_iff)
  qed
qed

lemma strategies_peak:
  assumes "strategy \<in> {process_rfft, process_hann, process_subcomp}"
    and "strategy a g = Inr out" and "audio_waveform out = Samples t'"
  shows "list_all (\<lambda>x. \<bar>x\<bar> \<le> 1) (elems t')"
proof -
  have "\<exists>buf. normalize_waveform buf = Inr (Samples t')"
    using assms
    by (auto simp add: process_rfft_def process_hann_def process_subcomp_def Let_def
        simp del: normalize_waveform.simps split: sum.splits prod.splits) blast+
  then show ?thesis using normalize_waveform_peak by blast
qed

text \<open>
  Claim C2, with the input where the code departs from it. \<^verbatim>\<open>normalize_waveform\<close> returns
  a buffer of real samples unchanged when its largest absolute value is at most \<open>1\<close> and
  divided by that value otherwise; so whenever a strategy returns real samples, all of
  them are at most \<open>1\<close> in absolute value. But at the sample rate 12000 \<^verbatim>\<open>process_hann\<close>
  divides \<open>0\<close> by \<open>0\<close> in the profile of the brilliance band and returns a buffer that
  holds NaN, which has no peak of at most \<open>1\<close>.
\<close>

theorem normalization_and_peak:
  "(elems t \<noteq> [] \<longrightarrow>
      normalize_waveform (Samples t)
        = Inr (Samples (if Max (set (map abs (elems t))) \<le> 1 then t
                        else t\<lparr>elems := map (\<lambda>x. x / Max (set (map abs (elems t)))) (elems t)\<rparr>)))
   \<and> (strategy \<in> {process_rfft, process_hann, process_subcomp} \<and> strategy a g = Inr out
        \<and> audio_waveform out = Samples t' \<longrightarrow> list_all (\<lambda>x. \<bar>x\<bar> \<le> 1) (elems t'))
   \<and> process_hann \<lparr>audio_waveform = Some (Tensor \<lparr>shape = [1, 1, 2048], elems = replicate 2048 0\<rparr>),
         audio_sample_rate = Some 12000\<rparr> default_gains
       = Inr \<lparr>audio_waveform = NaNs [1, 1, 2048], audio_sample_rate = 12000\<rparr>"
proof (intro conjI impI)
  assume "elems t \<noteq> []"
  then show "normalize_waveform (Samples t)
        = Inr (Samples (if Max (set (map abs (elems t))) \<le> 1 then t
                        else t\<lparr>elems := map (\<lambda>x. x / Max (set (map abs (elems t)))) (elems t)\<rparr>))"
    by (rule normalize_waveform_contract)
next
  assume "strategy \<in> {process_rfft, process_hann, process_subcomp} \<and> strategy a g = Inr out
        \<and> audio_waveform out = Samples t'"
  then show "list_all (\<lambda>x. \<bar>x\<bar> \<le> 1) (elems t')"
    using strategies_peak by blast
next
  show "process_hann \<lparr>audio_waveform = Some (Tensor \<lparr>shape = [1, 1, 2048], elems = replicate 2048 0\<rparr>),
         audio_sample_rate = Some 12000\<rparr> default_gains
       = Inr \<lparr>audio_waveform = NaNs [1, 1, 2048], audio_sample_rate = 12000\<rparr>"
    by (rule process_hann_nan) (simp_all add: wf_tensor_def)
qed

theorem normalization_and_peak_witness:
  "elems \<lparr>shape = [1, 1, 2], elems = [2, - 4 :: real]\<rparr> \<noteq> []
   \<and> normalize_waveform (Samples \<lparr>shape = [1, 1, 2], elems = [2, - 4]\<rparr>)
       = Inr (Samples \<lparr>shape = [1, 1, 2], elems = [1 / 2, - 1]\<rparr>)
   \<and> (\<exists>out t'. process_rfft \<lparr>audio_waveform = Some (Tensor \<lparr>shape = [1, 1, 2], elems = [2, - 4]\<rparr>),
                    audio_sample_rate = Some 44100\<rparr> default_gains = Inr out
         \<and> audio_waveform out = Samples t' \<and> list_all (\<lambda>x. \<bar>x\<bar> \<le> 1) (elems t'))"
proof -
  let ?t = "\<lparr>shape = [1, 1, 2], elems = [2, - 4 :: real]\<rparr>"
  let ?a = "\<lparr>audio_waveform = Some (Tensor ?t), audio_sample_rate = Some (44100::real)\<rparr>"
  have "normalize_waveform (Samples ?t) = Inr (Samples \<lparr>shape = [1, 1, 2], elems = [1 / 2, - 1]\<rparr>)"
    using normalization_and_peak [of ?t process_rfft ?a default_gains] by simp
  moreover obtain t' where t': "process_rfft ?a default_gains
      = Inr \<lparr>audio_waveform = Samples t', audio_sample_rate = 44100\<rparr>"
    using process_rfft_returns [of ?t 1 1 2 44100 default_gains] by (auto simp add: wf_tensor_def)
  then have "list_all (\<lambda>x. \<bar>x\<bar> \<le> 1) (elems t')"
    using normalization_and_peak [of ?t process_rfft ?a default_gains
        "\<lparr>audio_waveform = Samples t', audio_sample_rate = 44100\<rparr>" t'] by simp
  ultimately show ?thesis using t' by simp
qed

section \<open>The inverse FFT undoes the FFT\<close>

lemma cis_power_sum_zero:
  fixes d :: real
  assumes n: "0 < n" and d: "d \<noteq> 0" "\<bar>d\<bar> < real n" "d \<in> \<int>"
  shows "(\<Sum>k<n. cis (2 * pi * d * real k / real n)) = 0"
proof -
  define w where "w = cis (2 * pi * d / real n)"
  have pw: "\<And>k. cis (2 * pi * d * real k / real n) = w ^ k"
    by (simp add: w_def DeMoivre algebra_simps)
  have "w \<noteq> 1"
  proof
    assume "w = 1"
    then have "cos (2 * pi * d / real n) = 1"
      by (simp add: w_def complex_eq_iff)
    then obtain m :: int where m: "2 * pi * d / real n = of_int m * 2 * pi"
      using cos_one_2pi_int by blast
    then have dm: "d = of_int m * real n"
      using n by (simp add: field_simps)
    have "m \<noteq> 0" using dm d(1) by auto
    then have "1 \<le> \<bar>m\<bar>" by linarith
    then have "(1::real) \<le> of_int \<bar>m\<bar>" by (simp only: of_int_1_le_iff)
    then have "1 \<le> \<bar>real_of_int m\<bar>" by simp
    then have "real n * 1 \<le> real n * \<bar>real_of_int m\<bar>"
      by (intro mult_left_mono) simp_all
    then have "real n \<le> \<bar>d\<bar>" by (simp add: dm abs_mult mult.commute)
    then show False using d(2) by simp
  qed
  moreover have "w ^ n = 1"
  proof -
    have "w ^ n = cis (2 * pi * d)"
      using n by (simp add: w_def DeMoivre)
    then show ?thesis using d(3) by simp
  qed
  ultimately have "(\<Sum>k<n. w ^ k) = 0"
    by (simp add: geometric_sum)
  then show ?thesis by (simp add: pw)
qed

lemma cis_orthogonal:
  assumes "j < n" "m < n"
  shows "(\<Sum>k<n. cis (2 * pi * (real j - real m) * real k / real n))
           = (if j = m then of_nat n else 0)"
proof (cases "j = m")
  case True
  then show ?thesis by simp
next
  case False
  have "real j - real m \<in> \<int>" by (simp add: Ints_diff)
  moreover have "\<bar>real j - real m\<bar> < real n" using assms by linarith
  moreover have "real j - real m \<noteq> 0" using False by simp
  ultimately show ?thesis
    using assms False by (simp add: cis_power_sum_zero)
qed

lemma cis_add_int: "z \<in> \<int> \<Longrightarrow> cis (a + 2 * pi * z) = cis a"
  by (simp add: cis_mult [symmetric])

lemma dft_inverse_full:
  assumes "length x = n" "j < n"
  shows "(\<Sum>k<n. dft_bin x k * cis (2 * pi * real j * real k / real n))
           = of_nat n * complex_of_real (x ! j)"
proof -
  have "\<And>k. dft_bin x k * cis (2 * pi * real j * real k / real n)
      = (\<Sum>m<n. complex_of_real (x ! m) * cis (2 * pi * (real j - real m) * real k / real n))"
  proof -
    fix k
    have "\<And>m. cis (- (2 * pi * real m * real k / real n)) * cis (2 * pi * real j * real k / real n)
        = cis (2 * pi * (real j - real m) * real k / real n)"
      by (simp add: cis_mult algebra_simps diff_divide_distrib)
    then show "dft_bin x k * cis (2 * pi * real j * real k / real n)
      = (\<Sum>m<n. complex_of_real (x ! m) * cis (2 * pi * (real j - real m) * real k / real n))"
      by (simp add: dft_bin_def assms(1) sum_distrib_right mult.assoc)
  qed
  then have "(\<Sum>k<n. dft_bin x k * cis (2 * pi * real j * real k / real n))
      = (\<Sum>k<n. \<Sum>m<n. complex_of_real (x ! m) * cis (2 * pi * (real j - real m) * real k / real n))"
    by simp
  also have "\<dots> = (\<Sum>m<n. \<Sum>k<n. complex_of_real (x ! m) * cis (2 * pi * (real j - real m) * real k / real n))"
    by (rule sum.swap)
  also have "\<dots> = (\<Sum>m<n. complex_of_real (x ! m)
                        * (\<Sum>k<n. cis (2 * pi * (real j - real m) * real k / real n)))"
    by (simp add: sum_distrib_left)
  also have "\<dots> = (\<Sum>m<n. complex_of_real (x ! m) * (if j = m then of_nat n else 0))"
    using assms(2) by (intro sum.cong refl) (simp add: cis_orthogonal)
  also have "\<dots> = (\<Sum>m<n. if m = j then complex_of_real (x ! m) * of_nat n else 0)"
    by (intro sum.cong refl) simp
  also have "\<dots> = complex_of_real (x ! j) * of_nat n"
    using assms(2) by (simp add: sum.delta)
  finally show ?thesis by (simp add: mult.commute)
qed

lemma dft_mirror:
  assumes "length x = n" "0 < k" "k < n"
  shows "dft_bin x (n - k) * cis (2 * pi * real j * real (n - k) / real n)
           = cnj (dft_bin x k * cis (2 * pi * real j * real k / real n))"
proof -
  have n: "real n \<noteq> 0" using assms by simp
  have nk: "real (n - k) = real n - real k" using assms by (simp add: of_nat_diff)
  have a: "\<And>m::nat. cis (- (2 * pi * real m * real (n - k) / real n))
                = cis (2 * pi * real m * real k / real n)"
  proof -
    fix m :: nat
    have "- (2 * pi * real m * real (n - k) / real n)
            = 2 * pi * real m * real k / real n + 2 * pi * (- real m)"
      using n by (simp add: nk field_simps)
    then show "cis (- (2 * pi * real m * real (n - k) / real n))
                = cis (2 * pi * real m * real k / real n)"
      by (simp only: cis_add_int Ints_minus Ints_of_nat)
  qed
  have "2 * pi * real j * real (n - k) / real n
          = - (2 * pi * real j * real k / real n) + 2 * pi * real j"
    using n by (simp add: nk field_simps)
  then have b: "cis (2 * pi * real j * real (n - k) / real n)
                  = cis (- (2 * pi * real j * real k / real n))"
    by (simp only: cis_add_int Ints_of_nat)
  have "dft_bin x (n - k) = cnj (dft_bin x k)"
    by (simp add: dft_bin_def assms(1) a cis_cnj)
  then show ?thesis by (simp add: b cis_cnj)
qed

lemma sum_reflect:
  fixes f :: "nat \<Rightarrow> real"
  assumes "b \<le> n" "0 < a"
  shows "(\<Sum>k = a..<b. f (n - k)) = (\<Sum>k = Suc (n - b)..<Suc (n - a). f k)"
  by (rule sum.reindex_bij_witness [where i = "\<lambda>k. n - k" and j = "\<lambda>k. n - k"])
    (use assms in auto)

lemma sum_mirror:
  fixes f :: "nat \<Rightarrow> real"
  assumes n: "0 < n" and sym: "\<And>k. 0 < k \<Longrightarrow> k < n \<Longrightarrow> f (n - k) = f k"
  shows "(\<Sum>k<n. f k)
           = f 0 + (\<Sum>k = 1..<(n + 1) div 2. 2 * f k) + (if even n then f (n div 2) else 0)"
proof -
  define h where "h = (n + 1) div 2"
  have low: "(\<Sum>k = 1..<h. f (n - k)) = (\<Sum>k = 1..<h. f k)"
    by (intro sum.cong refl sym) (auto simp add: h_def)
  have refl': "(\<Sum>k = 1..<h. f (n - k)) = (\<Sum>k = Suc (n - h)..<n. f k)"
    using sum_reflect [of h n 1 f] n by (simp add: h_def)
  have split0: "(\<Sum>k<n. f k) = f 0 + (\<Sum>k = 1..<n. f k)"
    using n by (simp add: lessThan_atLeast0 sum.atLeast_Suc_lessThan)
  have "(\<Sum>k<n. f k)
           = f 0 + (\<Sum>k = 1..<h. 2 * f k) + (if even n then f (n div 2) else 0)"
  proof (cases "even n")
    case True
    then have hn: "h = n div 2" "Suc (n - h) = Suc h" "1 \<le> h" "Suc h \<le> n"
      using n by (auto simp add: h_def elim!: evenE)
    have "(\<Sum>k = 1..<n. f k) = (\<Sum>k = 1..<Suc h. f k) + (\<Sum>k = Suc h..<n. f k)"
      using hn(3,4) by (intro sum.atLeastLessThan_concat [symmetric]) simp_all
    also have "(\<Sum>k = 1..<Suc h. f k) = (\<Sum>k = 1..<h. f k) + f h"
      using hn(3) by simp
    also have "(\<Sum>k = Suc h..<n. f k) = (\<Sum>k = 1..<h. f k)"
      using refl' low by (simp add: hn(2))
    finally show ?thesis
      using True split0 by (simp add: hn(1) [symmetric] sum_distrib_left [symmetric])
  next
    case False
    then have hn: "Suc (n - h) = h" "1 \<le> h" "h \<le> n"
      using n by (auto simp add: h_def elim!: oddE)
    have "(\<Sum>k = 1..<n. f k) = (\<Sum>k = 1..<h. f k) + (\<Sum>k = h..<n. f k)"
      using hn(2,3) by (simp add: sum.atLeastLessThan_concat)
    also have "\<dots> = (\<Sum>k = 1..<h. f k) + (\<Sum>k = 1..<h. f k)"
      using refl' low by (simp add: hn(1))
    finally show ?thesis
      using False split0 by (simp add: sum_distrib_left [symmetric])
  qed
  then show ?thesis by (simp only: h_def)
qed

lemma bin_rfft_row: "k < length x div 2 + 1 \<Longrightarrow> bin (rfft_row x) k = dft_bin x k"
  by (simp add: bin_def rfft_row_def del: upt_Suc)

lemma cis_pi_nat: "cis (pi * real j) = (- 1) ^ j"
  using DeMoivre [of pi j] by (simp add: mult.commute)

lemma irfft_rfft_row:
  assumes len: "length x = n" and n: "0 < n"
  shows "irfft_row n (rfft_row x) = x"
proof (rule nth_equalityI)
  show "length (irfft_row n (rfft_row x)) = length x"
    by (simp add: irfft_row_def len)
next
  fix j assume "j < length (irfft_row n (rfft_row x))"
  then have j: "j < n" by (simp add: irfft_row_def)
  define f where "f k = Re (dft_bin x k * cis (2 * pi * real j * real k / real n))" for k
  have sym: "\<And>k. 0 < k \<Longrightarrow> k < n \<Longrightarrow> f (n - k) = f k"
    by (simp only: f_def dft_mirror [OF len] cnj.sel)
  have "Re (\<Sum>k<n. dft_bin x k * cis (2 * pi * real j * real k / real n))
          = Re (of_nat n * complex_of_real (x ! j))"
    by (simp only: dft_inverse_full [OF len j])
  then have total: "(\<Sum>k<n. f k) = real n * x ! j"
    by (simp add: f_def)
  have f0: "f 0 = Re (bin (rfft_row x) 0)"
    by (simp add: f_def bin_rfft_row)
  have fk: "(\<Sum>k = 1..<(n + 1) div 2. 2 * f k)
      = (\<Sum>k = 1..<(n + 1) div 2. 2 * Re (bin (rfft_row x) k * cis (2 * pi * real j * real k / real n)))"
  proof (intro sum.cong refl)
    fix k assume "k \<in> {1..<(n + 1) div 2}"
    then have "k < length x div 2 + 1" by (auto simp add: len)
    then show "2 * f k = 2 * Re (bin (rfft_row x) k * cis (2 * pi * real j * real k / real n))"
      by (simp add: f_def bin_rfft_row)
  qed
  have fh: "(if even n then f (n div 2) else 0)
      = (if even n then Re (bin (rfft_row x) (n div 2)) * (- 1) ^ j else 0)"
  proof (cases "even n")
    case True
    then have h: "real (n div 2) = real n / 2" by (auto elim!: evenE)
    have "2 * pi * real j * (real n / 2) / real n = pi * real j"
      using n by (simp add: field_simps)
    then have "2 * pi * real j * real (n div 2) / real n = pi * real j"
      by (simp only: h)
    then have c: "cis (2 * pi * real j * real (n div 2) / real n) = complex_of_real ((- 1) ^ j)"
      by (simp add: cis_pi_nat)
    have "Re (dft_bin x (n div 2) * complex_of_real ((- 1) ^ j)) = Re (dft_bin x (n div 2)) * (- 1) ^ j"
      by simp
    then have "f (n div 2) = Re (dft_bin x (n div 2)) * (- 1) ^ j"
      by (simp only: f_def c)
    then show ?thesis using True by (simp add: bin_rfft_row len)
  next
    case False
    then show ?thesis by simp
  qed
  have "irfft_row n (rfft_row x) ! j
      = (f 0 + (\<Sum>k = 1..<(n + 1) div 2. 2 * f k) + (if even n then f (n div 2) else 0)) / real n"
    using j by (simp only: irfft_row_def nth_map length_upt nth_upt diff_zero add_0 f0 fk fh)
  also have "\<dots> = (\<Sum>k<n. f k) / real n"
    using sum_mirror [of n f, OF n sym] by simp
  also have "\<dots> = x ! j"
    using n by (simp add: total)
  finally show "irfft_row n (rfft_row x) ! j = x ! j" .
qed

lemma concat_rows:
  assumes "length xs = R * n"
  shows "concat (rows n xs) = xs"
proof -
  have *: "concat (map (\<lambda>r. take n (drop (r * n) xs)) [0..<m]) = take (m * n) xs" for m
  proof (induction m)
    case 0
    then show ?case by simp
  next
    case (Suc m)
    have "take (n + m * n) xs = take (m * n + n) xs"
      by (simp only: add.commute)
    also have "\<dots> = take (m * n) xs @ take n (drop (m * n) xs)"
      by (rule take_add)
    finally show ?case using Suc by simp
  qed
  show ?thesis
    using assms * [of "length xs div n"] by (cases "n = 0") (simp_all add: rows_def)
qed

lemma drop_concat_rows:
  assumes "\<And>r. r \<in> set rs \<Longrightarrow> length r = K"
  shows "drop (i * K) (concat rs) = concat (drop i rs)"
  using assms
proof (induction rs arbitrary: i)
  case Nil
  then show ?case by simp
next
  case (Cons r rs)
  then show ?case by (cases i) simp_all
qed

lemma rows_concat:
  assumes "\<And>r. r \<in> set rs \<Longrightarrow> length r = K" and "0 < K"
  shows "rows K (concat rs) = rs"
proof (rule nth_equalityI)
  have l: "length (concat rs) = length rs * K"
    using assms(1) length_concat_map [of rs "\<lambda>r. r" K] by simp
  then show "length (rows K (concat rs)) = length rs"
    using assms(2) by simp
  fix i assume "i < length (rows K (concat rs))"
  then have i: "i < length rs" using l assms(2) by simp
  then have "drop i rs = rs ! i # drop (Suc i) rs" by (simp add: Cons_nth_drop_Suc)
  moreover have "length (rs ! i) = K" using i assms(1) by simp
  ultimately have "take K (drop (i * K) (concat rs)) = rs ! i"
    by (simp add: drop_concat_rows [OF assms(1)])
  then show "rows K (concat rs) ! i = rs ! i"
    using i l assms(2) by (simp add: rows_def)
qed

lemma irfft_rfft_rows:
  assumes "length xs = R * n" and "0 < n"
  shows "concat (map (irfft_row n) (rows (n div 2 + 1) (concat (map rfft_row (rows n xs))))) = xs"
proof -
  have "rows (n div 2 + 1) (concat (map rfft_row (rows n xs))) = map rfft_row (rows n xs)"
    by (rule rows_concat) (auto simp add: length_row)
  moreover have "map (irfft_row n) (map rfft_row (rows n xs)) = rows n xs"
    using assms(2) by (simp add: map_idI irfft_rfft_row length_row)
  ultimately show ?thesis
    using concat_rows [OF assms(1)] by simp
qed

section \<open>All gains at 0 dB in the direct-FFT strategy\<close>

lemma rfft_gain_default [simp]: "rfft_gain default_gains b = 1"
  by (cases b) (simp_all add: default_gains_def)

lemma masked_mul_one [simp]: "masked_mul m 1 gf = gf"
proof -
  have "imap (\<lambda>i z. if m ! (i mod length m) then z * complex_of_real 1 else z) (elems gf) = elems gf"
    by (rule nth_equalityI) simp_all
  then show ?thesis by (simp add: masked_mul_def)
qed

lemma rfft_gain_factors_default [simp]:
  "rfft_gain_factors default_gains freq_bins X = ones_like X"
  by (simp add: rfft_gain_factors_def rfft_bands_def)

lemma fft_irfft_rfft:
  assumes wf: "wf_tensor w" and sh: "shape w = [b, c, n]" and n: "0 < n"
  shows "\<exists>F. fft_rfft w = Inr F \<and> fft_irfft F n = Inr w"
proof -
  define F where "F = \<lparr>shape = [b, c, n div 2 + 1],
    elems = concat (map rfft_row (rows n (elems w)))\<rparr>"
  have len: "length (elems w) = (b * c) * n"
    using wf sh by (simp add: wf_tensor_def)
  have rf: "fft_rfft w = Inr F"
    using sh n by (simp add: fft_rfft_def F_def)
  have "concat (map (irfft_row n) (rows (n div 2 + 1) (elems F))) = elems w"
    unfolding F_def using irfft_rfft_rows [OF len n] by simp
  then have "fft_irfft F n = Inr \<lparr>shape = [b, c, n], elems = elems w\<rparr>"
    using n by (simp add: fft_irfft_def F_def)
  then have "fft_irfft F n = Inr w" using sh by simp
  with rf show ?thesis by blast
qed

text \<open>
  Claim C4. With all seven gains at 0 dB every linear gain of \<^verbatim>\<open>process_rfft\<close> is \<open>1\<close> and
  its gain-factor field is all ones. For a valid input with a non-empty batch the
  inverse FFT at the original sample count gives back the waveform the FFT was taken
  of, so the result of \<^verbatim>\<open>process_rfft\<close> is the input waveform after the normalizer: the
  input itself when its peak is at most \<open>1\<close>, the input divided by its peak otherwise.
  (Over the reals; in floating point the round trip is exact up to rounding only.)
\<close>

theorem zero_gains_identity:
  assumes wf: "wf_tensor w" and sh: "shape w = [b, c, n]" and c: "c = 1 \<or> c = 2"
    and b: "0 < b" and n: "0 < n"
  shows "(\<forall>band. rfft_gain default_gains band = 1)
     \<and> (\<forall>freq_bins X. rfft_gain_factors default_gains freq_bins X = ones_like X)
     \<and> (\<exists>F. fft_rfft w = Inr F \<and> fft_irfft F n = Inr w)
     \<and> process_rfft \<lparr>audio_waveform = Some (Tensor w), audio_sample_rate = Some sr\<rparr> default_gains
         = Inr \<lparr>audio_waveform =
                  Samples (if Max (set (map abs (elems w))) \<le> 1 then w
                           else w\<lparr>elems := map (\<lambda>x. x / Max (set (map abs (elems w)))) (elems w)\<rparr>),
                audio_sample_rate = sr\<rparr>"
proof -
  obtain F where F: "fft_rfft w = Inr F" "fft_irfft F n = Inr w"
    using fft_irfft_rfft [OF wf sh n] by blast
  have "length (elems w) = b * c * n" using wf sh by (simp add: wf_tensor_def)
  then have ne: "elems w \<noteq> []" using b c n by auto
  have "process_rfft \<lparr>audio_waveform = Some (Tensor w), audio_sample_rate = Some sr\<rparr> default_gains
         = Inr \<lparr>audio_waveform =
                  Samples (if Max (set (map abs (elems w))) \<le> 1 then w
                           else w\<lparr>elems := map (\<lambda>x. x / Max (set (map abs (elems w)))) (elems w)\<rparr>),
                audio_sample_rate = sr\<rparr>"
    by (simp add: process_rfft_def check_input_valid [OF sh c] F Let_def tensor_mul_ones
        normalize_waveform_contract [OF ne] del: normalize_waveform.simps set_map)
  then show ?thesis using F by simp
qed

theorem zero_gains_identity_witness:
  "wf_tensor \<lparr>shape = [1, 1, 2], elems = [1 / 2, - 1 / 4 :: real]\<rparr>
   \<and> (\<exists>F. fft_rfft \<lparr>shape = [1, 1, 2], elems = [1 / 2, - 1 / 4]\<rparr> = Inr F
          \<and> fft_irfft F 2 = Inr \<lparr>shape = [1, 1, 2], elems = [1 / 2, - 1 / 4]\<rparr>)
   \<and> process_rfft \<lparr>audio_waveform = Some (Tensor \<lparr>shape = [1, 1, 2], elems = [1 / 2, - 1 / 4]\<rparr>),
         audio_sample_rate = Some 44100\<rparr> default_gains
       = Inr \<lparr>audio_waveform = Samples \<lparr>shape = [1, 1, 2], elems = [1 / 2, - 1 / 4]\<rparr>,
               audio_sample_rate = 44100\<rparr>
   \<and> process_rfft \<lparr>audio_waveform = Some (Tensor \<lparr>shape = [1, 1, 2], elems = [2, - 4]\<rparr>),
         audio_sample_rate = Some 44100\<rparr> default_gains
       = Inr \<lparr>audio_waveform = Samples \<lparr>shape = [1, 1, 2], elems = [1 / 2, - 1]\<rparr>,
               audio_sample_rate = 44100\<rparr>"
  using zero_gains_identity [of "\<lparr>shape = [1, 1, 2], elems = [1 / 2, - 1 / 4]\<rparr>" 1 1 2 44100]
    zero_gains_identity [of "\<lparr>shape = [1, 1, 2], elems = [2, - 4]\<rparr>" 1 1 2 44100]
  by (simp add: wf_tensor_def)

section \<open>The compression step against the uncompressed strategy\<close>

text \<open>
  The transform of the constant waveform at the first bin above 0 Hz is the transform of
  the Hann window there, \<open>-n_fft / 4\<close>.
\<close>

lemma hann_bin_term:
  "complex_of_real ((1 - cos a) / 2) * cis (- a) = cis (- a) / 2 - 1 / 4 - cis (- (2 * a)) / 4"
proof -
  have "cos (2 * a) = 2 * cos a * cos a - 1"
    by (simp add: cos_double_cos power2_eq_square)
  moreover have "sin (2 * a) = 2 * sin a * cos a" by (rule sin_double)
  ultimately show ?thesis
    by (simp add: complex_eq_iff field_simps)
qed

lemma hann_window_dft_bin1:
  "(\<Sum>n<2048. complex_of_real (hann_window 2048 ! n) * cis (- (2 * pi * real n * real 1 / real 2048)))
     = - 512"
proof -
  have z1: "(\<Sum>k<2048. cis (2 * pi * (- 1) * real k / real 2048)) = 0"
    by (rule cis_power_sum_zero) simp_all
  have z2: "(\<Sum>k<2048. cis (2 * pi * (- 2) * real k / real 2048)) = 0"
    by (rule cis_power_sum_zero) simp_all
  have "(\<Sum>n<2048. complex_of_real (hann_window 2048 ! n) * cis (- (2 * pi * real n * real 1 / real 2048)))
      = (\<Sum>n<2048. cis (2 * pi * (- 1) * real n / real 2048) / 2 - 1 / 4
                    - cis (2 * pi * (- 2) * real n / real 2048) / 4)"
  proof (intro sum.cong refl)
    fix n assume "n \<in> {..<2048::nat}"
    then have n: "n < 2048" by simp
    have "complex_of_real (hann_window 2048 ! n) * cis (- (2 * pi * real n / real 2048))
        = cis (- (2 * pi * real n / real 2048)) / 2 - 1 / 4
          - cis (- (2 * (2 * pi * real n / real 2048))) / 4"
      by (simp only: nth_hann_window [OF n] hann_bin_term)
    then show "complex_of_real (hann_window 2048 ! n) * cis (- (2 * pi * real n * real 1 / real 2048))
        = cis (2 * pi * (- 1) * real n / real 2048) / 2 - 1 / 4
          - cis (2 * pi * (- 2) * real n / real 2048) / 4"
      by (simp add: algebra_simps)
  qed
  also have "\<dots> = (\<Sum>n<2048. cis (2 * pi * (- 1) * real n / real 2048)) / 2 - of_nat 2048 / 4
                   - (\<Sum>n<2048. cis (2 * pi * (- 2) * real n / real 2048)) / 4"
    by (simp only: sum_subtractf sum_divide_distrib [symmetric] sum_constant card_lessThan
        of_nat_mult [symmetric]) simp
  also have "\<dots> = - 512" by (simp only: z1 z2) simp
  finally show ?thesis .
qed

lemma reflect_pad_replicate: "reflect_pad 1024 (replicate 2048 c) = replicate 4096 c"
  by (simp add: reflect_pad_def replicate_add [symmetric])

lemma nth_concat_grid:
  assumes "f < F" "t < T"
  shows "concat (map (\<lambda>f. map (g f) [0..<T]) [0..<F]) ! (f * T + t) = g f t"
  using assms(1)
proof (induction F)
  case 0
  then show ?case by simp
next
  case (Suc F)
  have len: "length (concat (map (\<lambda>f. map (g f) [0..<T]) [0..<F])) = F * T"
    by (simp add: length_concat_map)
  show ?case
  proof (cases "f < F")
    case True
    then have "Suc f \<le> F" by simp
    then have "Suc f * T \<le> F * T" by (rule mult_le_mono1)
    then have "f * T + t < F * T" using assms(2) by simp
    then show ?thesis using Suc.IH [OF True] by (simp add: nth_append len)
  next
    case False
    then have "f = F" using Suc.prems by simp
    then show ?thesis using assms(2) by (simp add: nth_append len)
  qed
qed

lemma nth_linspace:
  "1 < n \<Longrightarrow> i < n \<Longrightarrow> linspace a b n ! i = a + real i * (b - a) / real (n - 1)"
  by (simp add: linspace_def)

lemma dc_stft_bin1: "elems dc_stft ! 3 = - 512"
proof -
  have p: "\<And>n. n < 2048 \<Longrightarrow> reflect_pad (2048 div 2) (replicate 2048 (1::real)) ! (0 * 1024 + n) = 1"
    by (simp add: reflect_pad_replicate)
  define S where "S f t = (\<Sum>n<2048. complex_of_real (hann_window 2048 ! n
             * reflect_pad (2048 div 2) (replicate 2048 1) ! (t * 1024 + n))
           * cis (- (2 * pi * real n * real f / real 2048)))" for f t
  have fr: "stft_frames 2048 1024 2048 = 3" by (simp add: stft_frames_def)
  have "elems dc_stft = concat (map (\<lambda>f. map (S f) [0..<3]) [0..<1025])"
    by (simp add: dc_stft_def stft_row_def fr Let_def S_def [abs_def] del: upt_Suc)
  moreover have "concat (map (\<lambda>f. map (S f) [0..<3]) [0..<1025]) ! (1 * 3 + 0) = S 1 0"
    by (rule nth_concat_grid) simp_all
  ultimately have "elems dc_stft ! 3 = S 1 0" by simp
  also have "\<dots> = (\<Sum>n<2048. complex_of_real (hann_window 2048 ! n
             * reflect_pad (2048 div 2) (replicate 2048 1) ! (0 * 1024 + n))
           * cis (- (2 * pi * real n * real 1 / real 2048)))"
    by (simp only: S_def)
  also have "\<dots> = (\<Sum>n<2048. complex_of_real (hann_window 2048 ! n)
           * cis (- (2 * pi * real n * real 1 / real 2048)))"
    by (intro sum.cong refl) (simp only: p lessThan_iff mult_1_right)
  also have "\<dots> = - 512" by (rule hann_window_dft_bin1)
  finally show ?thesis .
qed

lemma dc_stft_torch: "torch_stft dc_rows 2048 1024 (hann_window 2048) = Inr dc_stft"
  by (simp add: torch_stft_def dc_rows_def dc_stft_def rows_def stft_frames_2048)

lemma dc_view_rows:
  "view_rows \<lparr>shape = [1, 1, 2048], elems = replicate 2048 1\<rparr> 2048 = Inr dc_rows"
  by (simp add: view_rows_def dc_rows_def)

lemma dc_bass_bin:
  "20 \<le> linspace 0 (44100 / 2) 1025 ! freq_index (shape dc_stft) 3
   \<and> linspace 0 (44100 / 2) 1025 ! freq_index (shape dc_stft) 3 \<le> 250"
  by (simp add: dc_stft_def freq_index_def nth_linspace)

text \<open>
  Claim C9, as amended. Both windowed strategies compute the same spectrum \<open>X\<close> from the
  waveform. With all seven gains at 0 dB and a sample rate other than 12000, at every
  element of \<open>X\<close> that is not zero (so at every element above the threshold) and whose
  bin is between 20 Hz and 250 Hz, the equalized spectrum of \<^verbatim>\<open>process_hann\<close> is \<open>X\<close>
  itself, and the magnitude of \<^verbatim>\<open>process_subcomp\<close> after the compression step, before
  the makeup gain, is above it, not below: the step multiplies by
  \<open>1 + gain_reduction_linear\<close>.
\<close>

theorem compression_raises_bass_magnitude:
  assumes "sample_rate / 2 \<noteq> 6000" and "0 < shape X ! 1" and "i < length (elems X)"
    and "freq_bins = linspace 0 (sample_rate / 2) (shape X ! 1)"
    and "20 \<le> freq_bins ! freq_index (shape X) i" and "freq_bins ! freq_index (shape X) i \<le> 250"
    and "elems X ! i \<noteq> 0"
  shows "elems (hann_stft_eq default_gains sample_rate X) ! i = Some (elems X ! i)
         \<and> cmod (elems X ! i)
             < elems (magnitude_compressed freq_bins (subcomp_stft_eq default_gains sample_rate X)) ! i"
  using assms by (rule bass_bin_default_gains)

theorem compression_raises_bass_magnitude_witness:
  "(44100::real) / 2 \<noteq> 6000 \<and> 0 < shape dc_stft ! 1 \<and> 3 < length (elems dc_stft)
   \<and> 20 \<le> linspace 0 (44100 / 2) 1025 ! freq_index (shape dc_stft) 3
   \<and> linspace 0 (44100 / 2) 1025 ! freq_index (shape dc_stft) 3 \<le> 250
   \<and> elems dc_stft ! 3 \<noteq> 0
   \<and> elems (hann_stft_eq default_gains 44100 dc_stft) ! 3 = Some (- 512)
   \<and> 512 < elems (magnitude_compressed (linspace 0 (44100 / 2) 1025)
               (subcomp_stft_eq default_gains 44100 dc_stft)) ! 3"
proof -
  have l: "length (elems dc_stft) = 1025 * 3"
    by (simp add: dc_stft_def stft_frames_2048)
  have s: "shape dc_stft ! 1 = 1025" "shape dc_stft ! Suc 0 = 1025"
    by (simp_all add: dc_stft_def)
  show ?thesis
    using compression_raises_bass_magnitude [of 44100 dc_stft 3 "linspace 0 (44100 / 2) 1025"]
      dc_bass_bin
    by (simp add: l s dc_stft_bin1)
qed

text \<open>
  The claim as the specification states it fails. The constant waveform of 2048 samples
  at 44100 Hz has the magnitude 512 at its first bin above 0 Hz (21.5 Hz, in the bass
  band and far above the threshold of 0.1); with all gains at 0 dB the magnitude after
  the compression step is not below the magnitude \<^verbatim>\<open>process_hann\<close> has there.
\<close>

theorem compression_lowers_bass_magnitude_counterexample:
  "view_rows \<lparr>shape = [1, 1, 2048], elems = replicate 2048 1\<rparr> 2048 = Inr dc_rows
   \<and> torch_stft dc_rows 2048 1024 (hann_window 2048) = Inr dc_stft
   \<and> 20 \<le> linspace 0 (44100 / 2) 1025 ! freq_index (shape dc_stft) 3
   \<and> linspace 0 (44100 / 2) 1025 ! freq_index (shape dc_stft) 3 \<le> 250
   \<and> 10 powr (threshold / 20) < cmod (elems dc_stft ! 3)
   \<and> \<not> elems (magnitude_compressed (linspace 0 (44100 / 2) 1025)
            (subcomp_stft_eq default_gains 44100 dc_stft)) ! 3
        < cmod (the (elems (hann_stft_eq default_gains 44100 dc_stft) ! 3))"
proof -
  have l: "length (elems dc_stft) = 1025 * 3"
    by (simp add: dc_stft_def stft_frames_2048)
  have s: "shape dc_stft ! 1 = 1025" "shape dc_stft ! Suc 0 = 1025" by (simp_all add: dc_stft_def)
  have "elems (hann_stft_eq default_gains 44100 dc_stft) ! 3 = Some (elems dc_stft ! 3)
         \<and> cmod (elems dc_stft ! 3)
             < elems (magnitude_compressed (linspace 0 (44100 / 2) 1025)
                 (subcomp_stft_eq default_gains 44100 dc_stft)) ! 3"
    using dc_bass_bin
    by (intro bass_bin_default_gains) (simp_all add: l s dc_stft_bin1)
  moreover have "(10::real) powr (threshold / 20) < 512"
  proof -
    have "(10::real) powr (threshold / 20) \<le> 10 powr 0"
      by (intro powr_mono) (simp_all add: threshold_def)
    then show ?thesis by simp
  qed
  ultimately show ?thesis
    using dc_bass_bin dc_view_rows dc_stft_torch by (simp add: dc_stft_bin1)
qed

end
